theory Spec2Isabelle
  imports Main "HOL-Library.Finite_Map" "HOL-Library.Sublist"
begin

section \<open>The Redis-backed store of \<^verbatim>\<open>makeRedisStore.ts\<close>\<close>

text \<open>
  The source file holds two successive versions of the store. The one embedded here is
  the second (\<^verbatim>\<open>export function makeRedisStore\<close>, from line 186 on), which is the one
  that takes the socket in \<^verbatim>\<open>bind(ev, sock)\<close>, merges contacts, and handles
  \<^verbatim>\<open>groups.update\<close> and \<^verbatim>\<open>group-participants.update\<close>.
\<close>

subsection \<open>JSON values and the JavaScript operators used on them\<close>

text \<open>
  Every value written to Redis goes through \<^verbatim>\<open>JSON.stringify\<close> and every value read goes
  through \<^verbatim>\<open>JSON.parse\<close>. The store is modelled as holding the decoded value, so the
  values are JSON values. An object is a finite map from property names to values; reading
  a property gives a \<open>json option\<close>, where \<open>None\<close> is JavaScript's \<^verbatim>\<open>undefined\<close>.
  The payloads of the events and the answers of the socket are taken to be JSON values
  too: a property is absent or has a JSON value. Numbers are integers (counts and
  timestamps).
\<close>

datatype json =
    JNull
  | JBool bool
  | JNum int
  | JStr string
  | JArr "json list"
  | JObj "(string, json) fmap"

type_synonym obj = "(string, json) fmap"

text \<open>JavaScript truthiness: what \<^verbatim>\<open>a || b\<close>, \<^verbatim>\<open>if (a)\<close> and \<^verbatim>\<open>!a\<close> test.\<close>

fun truthy :: "json option \<Rightarrow> bool" where
  "truthy None = False"
| "truthy (Some JNull) = False"
| "truthy (Some (JBool b)) = b"
| "truthy (Some (JNum n)) = (n \<noteq> 0)"
| "truthy (Some (JStr s)) = (s \<noteq> [])"
| "truthy (Some (JArr vs)) = True"
| "truthy (Some (JObj m)) = True"

text \<open>\<^verbatim>\<open>a || b\<close>\<close>

definition js_or :: "json option \<Rightarrow> json option \<Rightarrow> json option" where
  "js_or a b = (if truthy a then a else b)"

text \<open>\<^verbatim>\<open>a ?? b\<close>: only \<^verbatim>\<open>null\<close> and \<^verbatim>\<open>undefined\<close> fall through.\<close>

fun nullish :: "json option \<Rightarrow> bool" where
  "nullish None = True"
| "nullish (Some JNull) = True"
| "nullish (Some v) = False"

definition js_coalesce :: "json option \<Rightarrow> json option \<Rightarrow> json option" where
  "js_coalesce a b = (if nullish a then b else a)"

text \<open>
  \<^verbatim>\<open>{ ...m, k: v }\<close> as it is stored: \<^verbatim>\<open>JSON.stringify\<close> writes no property whose value is
  \<^verbatim>\<open>undefined\<close>.
\<close>

definition set_prop :: "string \<Rightarrow> json option \<Rightarrow> obj \<Rightarrow> obj" where
  "set_prop k v m = (case v of None \<Rightarrow> fmdrop k m | Some x \<Rightarrow> fmupd k x m)"

text \<open>\<^verbatim>\<open>p.k\<close> for a non-null value \<open>p\<close>: a primitive or an array has no such property.\<close>

definition get_prop :: "json \<Rightarrow> string \<Rightarrow> json option" where
  "get_prop p k = (case p of JObj m \<Rightarrow> fmlookup m k | _ \<Rightarrow> None)"

text \<open>\<^verbatim>\<open>c?.k\<close> for a record \<open>c\<close> that is an object or \<^verbatim>\<open>null\<close>.\<close>

definition opt_prop :: "obj option \<Rightarrow> string \<Rightarrow> json option" where
  "opt_prop c k = (case c of None \<Rightarrow> None | Some m \<Rightarrow> fmlookup m k)"

definition endsWith :: "string \<Rightarrow> string \<Rightarrow> bool" where
  "endsWith s sfx = (length sfx \<le> length s \<and> drop (length s - length sfx) s = sfx)"

text \<open>\<^verbatim>\<open>jid.split('@')[0]\<close>\<close>

definition local_part :: "string \<Rightarrow> string" where
  "local_part jid = takeWhile (\<lambda>c. c \<noteq> CHR ''@'') jid"

subsection \<open>Event payloads\<close>

text \<open>
  \<^verbatim>\<open>Chat\<close>, \<^verbatim>\<open>Contact\<close> and \<^verbatim>\<open>GroupMetadata\<close> are objects with a required string
  \<^verbatim>\<open>id\<close> and further properties. \<open>to_obj\<close> is the object itself, as \<^verbatim>\<open>JSON.stringify\<close>
  sees it.
\<close>

record entity =
  eid :: string
  props :: obj

definition to_obj :: "entity \<Rightarrow> obj" where
  "to_obj e = fmupd ''id'' (JStr (eid e)) (props e)"

text \<open>
  \<^verbatim>\<open>groups.update\<close> delivers \<^verbatim>\<open>Partial<GroupMetadata>\<close>: the \<^verbatim>\<open>id\<close> may be missing, and
  the template literal then writes \<^verbatim>\<open>undefined\<close> into the key.
\<close>

record group_patch =
  gid :: "string option"
  gprops :: obj

definition patch_key :: "group_patch \<Rightarrow> string" where
  "patch_key g = (case gid g of None \<Rightarrow> ''undefined'' | Some i \<Rightarrow> i)"

definition patch_obj :: "group_patch \<Rightarrow> obj" where
  "patch_obj g = (case gid g of None \<Rightarrow> gprops g | Some i \<Rightarrow> fmupd ''id'' (JStr i) (gprops g))"

text \<open>
  A message envelope (\<^verbatim>\<open>WAMessage\<close>): the key with the conversation id and the message
  id (\<open>None\<close> for \<^verbatim>\<open>null\<close> or \<^verbatim>\<open>undefined\<close>), the content payload, the timestamp and the
  stub type.
\<close>

record msgkey =
  remoteJid :: "string option"
  keyId :: "string option"
  key_rest :: obj

record wamessage =
  key :: msgkey
  message :: "obj option"
  messageTimestamp :: "json option"
  messageStubType :: "int option"
  msg_rest :: obj

record participants_update =
  pu_id :: string
  participants :: "string list"
  action :: string

datatype event =
    MessagingHistorySet "entity list" "entity list" "wamessage list"
  | MessagesUpsert "wamessage list"
  | ChatsUpsert "entity list"
  | ContactsUpsert "entity list"
  | GroupsUpsert "entity list"
  | GroupsUpdate "group_patch list"
  | GroupParticipantsUpdate participants_update

subsection \<open>The Redis commands\<close>

text \<open>
  The commands the store issues, on the value held under one key. They are taken to
  succeed, except in the handler of \<^verbatim>\<open>group-participants.update\<close>, whose \<^verbatim>\<open>try\<close> is there
  for their failure and where they may be rejected. A list key that was never written is the
  empty list. \<^verbatim>\<open>SMEMBERS\<close> returns the members in no specified order; the
  model keeps them in order of first insertion. \<^verbatim>\<open>LRANGE\<close> and \<^verbatim>\<open>LINDEX\<close> count a
  negative index from the end of the list, and \<^verbatim>\<open>LRANGE\<close> clips its range to the list.
\<close>

definition rpush :: "'a list \<Rightarrow> 'a \<Rightarrow> 'a list" where
  "rpush xs v = xs @ [v]"

definition sadd :: "string list \<Rightarrow> string \<Rightarrow> string list" where
  "sadd s v = (if v \<in> set s then s else s @ [v])"

definition llen :: "'a list \<Rightarrow> int" where
  "llen xs = int (length xs)"

definition lrange :: "'a list \<Rightarrow> int \<Rightarrow> int \<Rightarrow> 'a list" where
  "lrange xs start stop =
     (let n = int (length xs);
          s0 = (if start < 0 then n + start else start);
          e0 = (if stop < 0 then n + stop else stop);
          s = (if s0 < 0 then 0 else s0)
      in if e0 < s \<or> n \<le> s then []
         else let e = (if n \<le> e0 then n - 1 else e0)
              in take (nat (e - s + 1)) (drop (nat s) xs))"

definition lindex :: "'a list \<Rightarrow> int \<Rightarrow> 'a option" where
  "lindex xs i =
     (let n = int (length xs);
          j = (if i < 0 then n + i else i)
      in if 0 \<le> j \<and> j < n then Some (xs ! nat j) else None)"

subsection \<open>The socket and the state of the store\<close>

text \<open>
  \<^verbatim>\<open>sock.groupMetadata(jid)\<close> is a remote call that may reject. The socket is modelled by
  the answers it will give (the \<open>n\<close>-th call for \<open>jid\<close> yields \<open>Some\<close> metadata or \<open>None\<close>
  when it rejects) and the log of the calls made so far. \<^verbatim>\<open>sock\<close> has type \<^verbatim>\<open>any\<close>:
  it may lack the method altogether.
\<close>

record socket =
  groupMetadata :: "(nat \<Rightarrow> string \<Rightarrow> obj option) option"
  calls :: "string list"

text \<open>
  The keys the store uses, built on the prefix \<^verbatim>\<open>wa:${deviceId}\<close> (here \<open>pre\<close>).
\<close>

definition chatmeta_key :: "string \<Rightarrow> string \<Rightarrow> string" where
  "chatmeta_key pre j = pre @ '':chatmeta:'' @ j"

definition contact_key :: "string \<Rightarrow> string \<Rightarrow> string" where
  "contact_key pre j = pre @ '':contact:'' @ j"

definition groupmeta_key :: "string \<Rightarrow> string \<Rightarrow> string" where
  "groupmeta_key pre j = pre @ '':groupmeta:'' @ j"

definition messages_key :: "string \<Rightarrow> string \<Rightarrow> string" where
  "messages_key pre j = pre @ '':chat:'' @ j @ '':messages''"

definition knownJIDs_key :: "string \<Rightarrow> string" where
  "knownJIDs_key pre = pre @ '':knownJIDs''"

text \<open>
  Keys of different shapes never coincide and each shape determines the id in it (lemmas
  \<open>keys_injective\<close> and \<open>keys_disjoint\<close> below), so the keyspace is modelled as five
  components, each indexed by the id that completes the key. \<open>socketRef\<close> is the variable
  of that name: unset until \<^verbatim>\<open>bind\<close>.
\<close>

record store =
  chatmeta :: "string \<Rightarrow> obj option"
  contact :: "string \<Rightarrow> obj option"
  groupmeta :: "string \<Rightarrow> obj option"
  messages :: "string \<Rightarrow> wamessage list"
  knownJIDs :: "string list"
  socketRef :: "socket option"

definition empty_store :: store where
  "empty_store = \<lparr> chatmeta = Map.empty, contact = Map.empty, groupmeta = Map.empty,
                   messages = (\<lambda>j. []), knownJIDs = [], socketRef = None \<rparr>"

definition bind :: "socket \<Rightarrow> store \<Rightarrow> store" where
  "bind sock st = st\<lparr> socketRef := Some sock \<rparr>"

text \<open>
  \<^verbatim>\<open>await sock.groupMetadata(jid)\<close> inside a \<^verbatim>\<open>try\<close>: \<open>None\<close> when the call rejects or
  cannot be made, and the call is logged when it is made.
\<close>

definition fetch_groupMetadata :: "store \<Rightarrow> string \<Rightarrow> obj option \<times> store" where
  "fetch_groupMetadata st jid =
     (case socketRef st of
        None \<Rightarrow> (None, st)
      | Some sock \<Rightarrow>
          (case groupMetadata sock of
             None \<Rightarrow> (None, st)
           | Some f \<Rightarrow> (f (length (calls sock)) jid,
                        st\<lparr> socketRef := Some (sock\<lparr> calls := calls sock @ [jid] \<rparr>) \<rparr>)))"

definition fetch_log :: "store \<Rightarrow> string list" where
  "fetch_log st = (case socketRef st of None \<Rightarrow> [] | Some sock \<Rightarrow> calls sock)"

text \<open>\<^verbatim>\<open>socketRef?.groupMetadata\<close> as a condition: the store is bound to a socket that has the method.\<close>

definition can_fetch :: "store \<Rightarrow> bool" where
  "can_fetch st = (case socketRef st of None \<Rightarrow> False | Some sock \<Rightarrow> groupMetadata sock \<noteq> None)"

subsection \<open>The event handlers registered by \<^verbatim>\<open>bind\<close>\<close>

text \<open>
  \<^verbatim>\<open>if (jid && msg.message) { rpush; sadd }\<close>, the body shared by the message loops of
  \<^verbatim>\<open>messaging-history.set\<close> and \<^verbatim>\<open>messages.upsert\<close>.
\<close>

definition append_message :: "wamessage \<Rightarrow> store \<Rightarrow> store" where
  "append_message msg st =
     (case remoteJid (key msg) of
        None \<Rightarrow> st
      | Some jid \<Rightarrow>
          if jid \<noteq> [] \<and> message msg \<noteq> None
          then st\<lparr> messages := (messages st)(jid := rpush (messages st jid) msg),
                   knownJIDs := sadd (knownJIDs st) jid \<rparr>
          else st)"

text \<open>
  The stub type \<^verbatim>\<open>proto.WebMessageInfo.StubType.CIPHERTEXT\<close> comes from the protocol
  definitions, which are not part of the source: it is the parameter \<open>CIPHERTEXT\<close>.
\<close>

definition history_message :: "int \<Rightarrow> wamessage \<Rightarrow> store \<Rightarrow> store" where
  "history_message CIPHERTEXT msg st =
     (if message msg = None \<and> messageStubType msg = Some CIPHERTEXT then st
      else append_message msg st)"

definition upsert_chat :: "entity \<Rightarrow> store \<Rightarrow> store" where
  "upsert_chat c st =
     st\<lparr> chatmeta := (chatmeta st)(eid c \<mapsto> to_obj c),
         knownJIDs := sadd (knownJIDs st) (eid c) \<rparr>"

definition history_chat :: "entity \<Rightarrow> store \<Rightarrow> store" where
  "history_chat c st =
     (let st1 = upsert_chat c st
      in if endsWith (eid c) ''@g.us''
         then (case fetch_groupMetadata st1 (eid c) of
                 (None, st2) \<Rightarrow> st2
               | (Some meta, st2) \<Rightarrow> st2\<lparr> groupmeta := (groupmeta st2)(eid c \<mapsto> meta) \<rparr>)
         else st1)"

definition history_contact :: "entity \<Rightarrow> store \<Rightarrow> store" where
  "history_contact c st = st\<lparr> contact := (contact st)(eid c \<mapsto> to_obj c) \<rparr>"

definition on_messaging_history_set ::
  "int \<Rightarrow> entity list \<Rightarrow> entity list \<Rightarrow> wamessage list \<Rightarrow> store \<Rightarrow> store" where
  "on_messaging_history_set CIPHERTEXT chats contacts msgs st =
     fold history_contact contacts
       (fold history_chat chats
          (fold (history_message CIPHERTEXT) msgs st))"

definition on_messages_upsert :: "wamessage list \<Rightarrow> store \<Rightarrow> store" where
  "on_messages_upsert msgs st = fold append_message msgs st"

definition on_chats_upsert :: "entity list \<Rightarrow> store \<Rightarrow> store" where
  "on_chats_upsert chats st = fold upsert_chat chats st"

text \<open>
  \<^verbatim>\<open>{ ...existing, ...contact, name: contact.name || existing.name, verifiedName: ...,
  notify: ... }\<close>
\<close>

definition merge_contact :: "obj \<Rightarrow> obj \<Rightarrow> obj" where
  "merge_contact existing c =
     set_prop ''notify'' (js_or (fmlookup c ''notify'') (fmlookup existing ''notify''))
       (set_prop ''verifiedName''
          (js_or (fmlookup c ''verifiedName'') (fmlookup existing ''verifiedName''))
          (set_prop ''name'' (js_or (fmlookup c ''name'') (fmlookup existing ''name''))
             (existing ++\<^sub>f c)))"

definition upsert_contact :: "entity \<Rightarrow> store \<Rightarrow> store" where
  "upsert_contact c st =
     (let existing = (case contact st (eid c) of None \<Rightarrow> fmempty | Some e \<Rightarrow> e)
      in st\<lparr> contact := (contact st)(eid c \<mapsto> merge_contact existing (to_obj c)) \<rparr>)"

definition on_contacts_upsert :: "entity list \<Rightarrow> store \<Rightarrow> store" where
  "on_contacts_upsert contacts st = fold upsert_contact contacts st"

definition upsert_group :: "entity \<Rightarrow> store \<Rightarrow> store" where
  "upsert_group g st = st\<lparr> groupmeta := (groupmeta st)(eid g \<mapsto> to_obj g) \<rparr>"

definition on_groups_upsert :: "entity list \<Rightarrow> store \<Rightarrow> store" where
  "on_groups_upsert groups st = fold upsert_group groups st"

text \<open>\<^verbatim>\<open>Date.now()\<close> is the parameter \<open>now\<close> of the handlers that stamp their write.\<close>

definition update_group :: "int \<Rightarrow> group_patch \<Rightarrow> store \<Rightarrow> store" where
  "update_group now g st =
     (let existingMeta = (case groupmeta st (patch_key g) of None \<Rightarrow> fmempty | Some e \<Rightarrow> e);
          merged = fmupd ''lastGroupUpdate'' (JObj (fmap_of_list [(''updatedAt'', JNum now)]))
                     (existingMeta ++\<^sub>f patch_obj g)
      in st\<lparr> groupmeta := (groupmeta st)(patch_key g \<mapsto> merged) \<rparr>)"

definition on_groups_update :: "int \<Rightarrow> group_patch list \<Rightarrow> store \<Rightarrow> store" where
  "on_groups_update now groups st = fold (update_group now) groups st"

text \<open>\<^verbatim>\<open>latestMeta.participants?.length || 0\<close>\<close>

definition participantCount :: "obj \<Rightarrow> json option" where
  "participantCount latestMeta =
     js_or (case fmlookup latestMeta ''participants'' of
              None \<Rightarrow> None
            | Some JNull \<Rightarrow> None
            | Some (JArr ps) \<Rightarrow> Some (JNum (int (length ps)))
            | Some (JStr s) \<Rightarrow> Some (JNum (int (length s)))
            | Some (JObj m) \<Rightarrow> fmlookup m ''length''
            | Some v \<Rightarrow> None)
           (Some (JNum 0))"

text \<open>
  \<^verbatim>\<open>latestMeta.participants?.filter((p) => p.admin)?.map((p) => p.id) || []\<close>: \<open>None\<close> when
  the expression throws (\<^verbatim>\<open>participants\<close> is there but has no \<^verbatim>\<open>filter\<close>, or an entry is
  \<^verbatim>\<open>null\<close>). An \<^verbatim>\<open>undefined\<close> id is written as \<^verbatim>\<open>null\<close> by \<^verbatim>\<open>JSON.stringify\<close>.
\<close>

definition admin_id :: "json \<Rightarrow> json" where
  "admin_id p = (case get_prop p ''id'' of None \<Rightarrow> JNull | Some i \<Rightarrow> i)"

definition adminList :: "obj \<Rightarrow> json option" where
  "adminList latestMeta =
     (case fmlookup latestMeta ''participants'' of
        None \<Rightarrow> Some (JArr [])
      | Some JNull \<Rightarrow> Some (JArr [])
      | Some (JArr ps) \<Rightarrow>
          if JNull \<in> set ps then None
          else Some (JArr (map admin_id (filter (\<lambda>p. truthy (get_prop p ''admin'')) ps)))
      | Some v \<Rightarrow> None)"

definition participant_annotation ::
  "int \<Rightarrow> participants_update \<Rightarrow> json option \<Rightarrow> json \<Rightarrow> obj" where
  "participant_annotation now u cnt admins =
     set_prop ''participantCount'' cnt
       (fmap_of_list
          [(''participants'', JArr (map JStr (participants u))),
           (''action'', JStr (action u)),
           (''updatedAt'', JNum now),
           (''adminList'', admins)])"

text \<open>
  What can go wrong inside the handler: a Redis command is rejected, the stored text does
  not parse, or the admin list throws. Which of the commands of one run are rejected, and
  whether the stored record is corrupt, is given by the faults of that run.
\<close>

datatype error = StoreUnavailable | CorruptRecord | TypeError

record faults =
  get_fails :: bool
  parse_fails :: bool
  set_fails :: bool

definition no_faults :: faults where
  "no_faults = \<lparr> get_fails = False, parse_fails = False, set_fails = False \<rparr>"

text \<open>
  A block of statements ends normally or throws, and leaves the store it has reached either
  way. The promise of an \<^verbatim>\<open>async\<close> listener resolves when its body ends normally and
  rejects with the error when the body throws.
\<close>

type_synonym completion = "error option \<times> store"

datatype outcome = Resolved store | Rejected error store

definition settle :: "completion \<Rightarrow> outcome" where
  "settle r = (case fst r of None \<Rightarrow> Resolved (snd r) | Some e \<Rightarrow> Rejected e (snd r))"

text \<open>\<^verbatim>\<open>try { ... } catch { }\<close>: whatever the block throws is dropped.\<close>

definition try_catch_empty :: "completion \<Rightarrow> completion" where
  "try_catch_empty r = (None, snd r)"

definition final_store :: "outcome \<Rightarrow> store" where
  "final_store out = (case out of Resolved st \<Rightarrow> st | Rejected e st \<Rightarrow> st)"

text \<open>
  The statements inside the \<^verbatim>\<open>try\<close> of the handler, in their order: \<^verbatim>\<open>redis.get\<close>,
  \<^verbatim>\<open>JSON.parse\<close> of what was read (when something was read), the remote fetch in its own
  \<^verbatim>\<open>try\<close>, the count and the admin list, and \<^verbatim>\<open>redis.set\<close> of the merge. A rejected
  \<^verbatim>\<open>redis.set\<close> writes nothing.
\<close>

definition group_participants_update_body ::
  "faults \<Rightarrow> int \<Rightarrow> participants_update \<Rightarrow> store \<Rightarrow> completion" where
  "group_participants_update_body flt now u st =
     (if get_fails flt then (Some StoreUnavailable, st)
      else if groupmeta st (pu_id u) \<noteq> None \<and> parse_fails flt then (Some CorruptRecord, st)
      else
        (let existingMeta = (case groupmeta st (pu_id u) of None \<Rightarrow> fmempty | Some e \<Rightarrow> e)
         in case fetch_groupMetadata st (pu_id u) of
              (fetched, st1) \<Rightarrow>
                (let latestMeta = (case fetched of None \<Rightarrow> fmempty | Some m \<Rightarrow> m)
                 in case adminList latestMeta of
                      None \<Rightarrow> (Some TypeError, st1)
                    | Some admins \<Rightarrow>
                        if set_fails flt then (Some StoreUnavailable, st1)
                        else (None,
                          st1\<lparr> groupmeta := (groupmeta st1)(pu_id u \<mapsto>
                            fmupd ''lastParticipantUpdate''
                              (JObj (participant_annotation now u (participantCount latestMeta) admins))
                              (existingMeta ++\<^sub>f latestMeta)) \<rparr>))))"

text \<open>
  The listener: \<^verbatim>\<open>async (update) => { ...; try { body } catch { } }\<close>. The destructuring
  of the update before the \<^verbatim>\<open>try\<close> cannot throw.
\<close>

definition handle_group_participants_update ::
  "faults \<Rightarrow> int \<Rightarrow> participants_update \<Rightarrow> store \<Rightarrow> outcome" where
  "handle_group_participants_update flt now u st =
     settle (try_catch_empty (group_participants_update_body flt now u st))"

text \<open>The store the listener leaves when the Redis commands of the run succeed.\<close>

definition on_group_participants_update :: "int \<Rightarrow> participants_update \<Rightarrow> store \<Rightarrow> store" where
  "on_group_participants_update now u st =
     final_store (handle_group_participants_update no_faults now u st)"

text \<open>
  One delivered event, with the stub type of the undecryptable placeholder and the clock
  reading at the delivery.
\<close>

fun dispatch :: "int \<Rightarrow> int \<Rightarrow> event \<Rightarrow> store \<Rightarrow> store" where
  "dispatch CIPHERTEXT now (MessagingHistorySet chats contacts msgs) st =
     on_messaging_history_set CIPHERTEXT chats contacts msgs st"
| "dispatch CIPHERTEXT now (MessagesUpsert msgs) st = on_messages_upsert msgs st"
| "dispatch CIPHERTEXT now (ChatsUpsert chats) st = on_chats_upsert chats st"
| "dispatch CIPHERTEXT now (ContactsUpsert contacts) st = on_contacts_upsert contacts st"
| "dispatch CIPHERTEXT now (GroupsUpsert groups) st = on_groups_upsert groups st"
| "dispatch CIPHERTEXT now (GroupsUpdate groups) st = on_groups_update now groups st"
| "dispatch CIPHERTEXT now (GroupParticipantsUpdate u) st = on_group_participants_update now u st"

text \<open>A sequence of events, each with its clock reading, in the order delivered.\<close>

definition run :: "int \<Rightarrow> (int \<times> event) list \<Rightarrow> store \<Rightarrow> store" where
  "run CIPHERTEXT evs st = fold (\<lambda>(now, ev). dispatch CIPHERTEXT now ev) evs st"

subsection \<open>The queries\<close>

definition getKnownJIDs :: "store \<Rightarrow> string list" where
  "getKnownJIDs st = knownJIDs st"

definition getChat :: "store \<Rightarrow> string \<Rightarrow> obj option" where
  "getChat st jid = chatmeta st jid"

definition getContact :: "store \<Rightarrow> string \<Rightarrow> obj option" where
  "getContact st jid = contact st jid"

text \<open>An entry of \<^verbatim>\<open>getAllChats\<close>: \<^verbatim>\<open>{ ...chat, jid, name, profilePictureUrl, lastMessage,
  unreadCount, isGroup }\<close>, the named properties overriding those of the chat.\<close>

record chat_summary =
  chat :: obj
  jid :: string
  name :: "json option"
  profilePictureUrl :: "json option"
  lastMessage :: "wamessage option"
  unreadCount :: "json option"
  isGroup :: bool

definition chat_entry :: "store \<Rightarrow> string \<Rightarrow> chat_summary option" where
  "chat_entry st j =
     (let c = getContact st j
      in case getChat st j of
           None \<Rightarrow> None
         | Some ch \<Rightarrow>
             Some \<lparr> chat = ch,
                    jid = j,
                    name = js_coalesce
                             (js_coalesce
                                (js_coalesce (opt_prop c ''name'') (opt_prop c ''notify''))
                                (fmlookup ch ''name''))
                             (Some (JStr (local_part j))),
                    profilePictureUrl = js_coalesce (opt_prop c ''imgUrl'') None,
                    lastMessage = lindex (messages st j) (- 1),
                    unreadCount = js_coalesce (fmlookup ch ''unreadCount'') (Some (JNum 0)),
                    isGroup = endsWith j ''@g.us'' \<rparr>)"

definition getAllChats :: "store \<Rightarrow> chat_summary list" where
  "getAllChats st = List.map_filter (chat_entry st) (getKnownJIDs st)"

definition getMessages :: "store \<Rightarrow> string \<Rightarrow> wamessage list" where
  "getMessages st j = lrange (messages st j) 0 (- 1)"

definition getMessage :: "store \<Rightarrow> string \<Rightarrow> string \<Rightarrow> wamessage option" where
  "getMessage st j i = find (\<lambda>m. keyId (key m) = Some i) (getMessages st j)"

text \<open>
  \<^verbatim>\<open>getGroupMetadata\<close> may write: it returns its result and the store after the call.
\<close>

definition getGroupMetadata :: "store \<Rightarrow> string \<Rightarrow> obj option \<times> store" where
  "getGroupMetadata st j =
     (let raw = groupmeta st j
      in if raw = None \<and> can_fetch st
         then (case fetch_groupMetadata st j of
                 (None, st1) \<Rightarrow> (None, st1)
               | (Some latestMeta, st1) \<Rightarrow>
                   (Some latestMeta, st1\<lparr> groupmeta := (groupmeta st1)(j \<mapsto> latestMeta) \<rparr>))
         else (raw, st))"

text \<open>The digest \<^verbatim>\<open>{ key, messageTimestamp, messageStubType }\<close> of a message.\<close>

record digest =
  d_key :: msgkey
  d_messageTimestamp :: "json option"
  d_messageStubType :: "int option"

definition mostRecentMessage :: "store \<Rightarrow> string \<Rightarrow> digest option" where
  "mostRecentMessage st j =
     (case lindex (messages st j) (- 1) of
        None \<Rightarrow> None
      | Some msg \<Rightarrow> Some \<lparr> d_key = key msg,
                          d_messageTimestamp = messageTimestamp msg,
                          d_messageStubType = messageStubType msg \<rparr>)"

datatype MessageDirection = latest | earliest

text \<open>
  \<^verbatim>\<open>getSingleChatMessages(jid, count = 20, direction = 'latest')\<close>: an omitted argument is
  \<open>None\<close>.
\<close>

definition getSingleChatMessages ::
  "store \<Rightarrow> string \<Rightarrow> int option \<Rightarrow> MessageDirection option \<Rightarrow> wamessage list" where
  "getSingleChatMessages st j count_arg direction_arg =
     (let count = (case count_arg of None \<Rightarrow> 20 | Some k \<Rightarrow> k);
          direction = (case direction_arg of None \<Rightarrow> latest | Some d \<Rightarrow> d)
      in case direction of
           latest \<Rightarrow>
             (let total = llen (messages st j);
                  start = max (total - count) 0
              in lrange (messages st j) start (total - 1))
         | earliest \<Rightarrow> lrange (messages st j) 0 (count - 1))"

subsection \<open>Notions used in the statements\<close>

text \<open>
  A message that the guard \<^verbatim>\<open>jid && msg.message\<close> lets through into the list of
  conversation \<open>j\<close>: its \<^verbatim>\<open>remoteJid\<close> is \<open>j\<close>, a non-empty string, and it has a content
  payload.
\<close>

definition appendable :: "string \<Rightarrow> wamessage \<Rightarrow> bool" where
  "appendable j m = (remoteJid (key m) = Some j \<and> j \<noteq> [] \<and> message m \<noteq> None)"

text \<open>The conversation ids of the messages of a batch that pass that guard.\<close>

definition content_jids :: "wamessage list \<Rightarrow> string list" where
  "content_jids msgs =
     concat (map (\<lambda>m. case remoteJid (key m) of
                         None \<Rightarrow> []
                       | Some j \<Rightarrow> if j \<noteq> [] \<and> message m \<noteq> None then [j] else []) msgs)"

text \<open>The messages an event delivers.\<close>

fun event_messages :: "event \<Rightarrow> wamessage list" where
  "event_messages (MessagingHistorySet chats contacts msgs) = msgs"
| "event_messages (MessagesUpsert msgs) = msgs"
| "event_messages ev = []"

text \<open>
  Example data: a key, a text message, and a stub message (no content payload, stub type
  \<open>t\<close>) for a conversation.
\<close>

definition ex_key :: "string \<Rightarrow> string \<Rightarrow> msgkey" where
  "ex_key j i = \<lparr> remoteJid = Some j, keyId = Some i, key_rest = fmempty \<rparr>"

definition ex_text :: "string \<Rightarrow> string \<Rightarrow> string \<Rightarrow> wamessage" where
  "ex_text j i body =
     \<lparr> key = ex_key j i,
       message = Some (fmap_of_list [(''conversation'', JStr body)]),
       messageTimestamp = Some (JNum 1700000000),
       messageStubType = None,
       msg_rest = fmempty \<rparr>"

definition ex_stub :: "string \<Rightarrow> string \<Rightarrow> int \<Rightarrow> wamessage" where
  "ex_stub j i t =
     \<lparr> key = ex_key j i,
       message = None,
       messageTimestamp = Some (JNum 1700000000),
       messageStubType = Some t,
       msg_rest = fmempty \<rparr>"

text \<open>
  Example data: a socket whose remote fetch always answers, and one whose remote fetch
  always fails.
\<close>

definition ex_sock_down :: socket where
  "ex_sock_down = \<lparr> groupMetadata = Some (\<lambda>n g. None), calls = [] \<rparr>"

definition ex_sock :: socket where
  "ex_sock = \<lparr> groupMetadata =
                 Some (\<lambda>n g. Some (fmap_of_list [(''id'', JStr g), (''subject'', JStr ''Team'')])),
               calls = [] \<rparr>"

text \<open>
  Example data: a store with one chat and one text message in it; a store, bound to the
  socket whose fetch fails, with the metadata of a group of two participants, one of them an
  admin; a participant update for that group; and a socket whose fetch returns those two
  participants.
\<close>

definition ex_chat_store :: store where
  "ex_chat_store =
     on_messages_upsert [ex_text ''c@s.whatsapp.net'' ''1'' ''hello'']
       (on_chats_upsert [\<lparr> eid = ''c@s.whatsapp.net'', props = fmap_of_list [(''unreadCount'', JNum 1)] \<rparr>]
          (bind ex_sock empty_store))"

definition ex_group_store :: store where
  "ex_group_store =
     on_groups_upsert
       [\<lparr> eid = ''g@g.us'',
          props = fmap_of_list
            [(''subject'', JStr ''Team''),
             (''participants'',
                JArr [JObj (fmap_of_list [(''id'', JStr ''a@s.whatsapp.net''), (''admin'', JStr ''admin'')]),
                      JObj (fmap_of_list [(''id'', JStr ''b@s.whatsapp.net'')])])] \<rparr>]
       (bind ex_sock_down empty_store)"

definition ex_update :: participants_update where
  "ex_update = \<lparr> pu_id = ''g@g.us'', participants = [''c@s.whatsapp.net''], action = ''add'' \<rparr>"

definition ex_sock_members :: socket where
  "ex_sock_members =
     \<lparr> groupMetadata = Some (\<lambda>n g. Some (fmap_of_list
         [(''id'', JStr g),
          (''participants'',
             JArr [JObj (fmap_of_list [(''id'', JStr ''a@s.whatsapp.net''), (''admin'', JStr ''admin'')]),
                   JObj (fmap_of_list [(''id'', JStr ''b@s.whatsapp.net'')])])])),
       calls = [] \<rparr>"

text \<open>Example data: a socket whose remote fetch always answers with the given metadata.\<close>

definition ex_sock_answer :: "obj \<Rightarrow> socket" where
  "ex_sock_answer m = \<lparr> groupMetadata = Some (\<lambda>n g. Some m), calls = [] \<rparr>"

text \<open>
  The conversation ids an event carries: the chat ids and the \<^verbatim>\<open>remoteJid\<close>s of the
  messages of a history snapshot, the \<^verbatim>\<open>remoteJid\<close>s of \<^verbatim>\<open>messages.upsert\<close>, the chat
  ids of \<^verbatim>\<open>chats.upsert\<close>, the contact ids of \<^verbatim>\<open>contacts.upsert\<close>, and the group ids
  of \<^verbatim>\<open>groups.upsert\<close>, \<^verbatim>\<open>groups.update\<close> and \<^verbatim>\<open>group-participants.update\<close>.
\<close>

fun carried_ids :: "event \<Rightarrow> string list" where
  "carried_ids (MessagingHistorySet chats contacts msgs) =
     map eid chats @ List.map_filter (\<lambda>m. remoteJid (key m)) msgs"
| "carried_ids (MessagesUpsert msgs) = List.map_filter (\<lambda>m. remoteJid (key m)) msgs"
| "carried_ids (ChatsUpsert chats) = map eid chats"
| "carried_ids (ContactsUpsert contacts) = map eid contacts"
| "carried_ids (GroupsUpsert groups) = map eid groups"
| "carried_ids (GroupsUpdate groups) = List.map_filter gid groups"
| "carried_ids (GroupParticipantsUpdate u) = [pu_id u]"

text \<open>
  The conversation ids that the handler of an event passes to \<^verbatim>\<open>sadd\<close>: chat ids, and the
  \<^verbatim>\<open>remoteJid\<close>s of the messages that pass the guard.
\<close>

fun registered_ids :: "event \<Rightarrow> string list" where
  "registered_ids (MessagingHistorySet chats contacts msgs) = map eid chats @ content_jids msgs"
| "registered_ids (MessagesUpsert msgs) = content_jids msgs"
| "registered_ids (ChatsUpsert chats) = map eid chats"
| "registered_ids ev = []"

section \<open>Properties of the model\<close>

subsection \<open>The keys\<close>

lemma keys_injective:
  "chatmeta_key p j = chatmeta_key p j' \<longleftrightarrow> j = j'"
  "contact_key p j = contact_key p j' \<longleftrightarrow> j = j'"
  "groupmeta_key p j = groupmeta_key p j' \<longleftrightarrow> j = j'"
  "messages_key p j = messages_key p j' \<longleftrightarrow> j = j'"
  by (simp_all add: chatmeta_key_def contact_key_def groupmeta_key_def messages_key_def)

lemma keys_disjoint:
  "chatmeta_key p j \<noteq> contact_key p j'"
  "chatmeta_key p j \<noteq> groupmeta_key p j'"
  "chatmeta_key p j \<noteq> messages_key p j'"
  "chatmeta_key p j \<noteq> knownJIDs_key p"
  "contact_key p j \<noteq> groupmeta_key p j'"
  "contact_key p j \<noteq> messages_key p j'"
  "contact_key p j \<noteq> knownJIDs_key p"
  "groupmeta_key p j \<noteq> messages_key p j'"
  "groupmeta_key p j \<noteq> knownJIDs_key p"
  "messages_key p j \<noteq> knownJIDs_key p"
  by (simp_all add: chatmeta_key_def contact_key_def groupmeta_key_def messages_key_def
        knownJIDs_key_def)

subsection \<open>The Redis commands\<close>

lemma lrange_all: "lrange xs 0 (- 1) = xs"
  by (cases xs) (simp_all add: lrange_def Let_def)

lemma lindex_last: "lindex xs (- 1) = (if xs = [] then None else Some (last xs))"
  by (cases xs rule: rev_cases) (simp_all add: lindex_def Let_def nat_add_distrib)

lemma lrange_earliest: "0 < k \<Longrightarrow> lrange xs 0 (k - 1) = take (nat k) xs"
  by (simp add: lrange_def Let_def)

lemma lrange_latest:
  "0 \<le> k \<Longrightarrow> lrange xs (max (llen xs - k) 0) (llen xs - 1) = drop (length xs - nat k) xs"
  apply (simp add: lrange_def Let_def llen_def)
  apply (auto simp: max_def nat_diff_distrib)
  done

lemma sadd_set: "set (sadd s v) = insert v (set s)"
  by (auto simp: sadd_def)

lemma sadd_member: "v \<in> set s \<Longrightarrow> sadd s v = s"
  by (simp add: sadd_def)

lemma getMessages_eq: "getMessages st j = messages st j"
  by (simp add: getMessages_def lrange_all)

subsection \<open>The windowed accessor\<close>

lemma getSingleChatMessages_earliest:
  "0 < k \<Longrightarrow> getSingleChatMessages st j (Some k) (Some earliest) = take (nat k) (messages st j)"
  by (simp add: getSingleChatMessages_def lrange_earliest)

lemma getSingleChatMessages_latest:
  "0 \<le> k \<Longrightarrow> getSingleChatMessages st j (Some k) (Some latest)
     = drop (length (messages st j) - nat k) (messages st j)"
  by (simp add: getSingleChatMessages_def lrange_latest Let_def)

lemma getSingleChatMessages_defaults:
  "getSingleChatMessages st j None d = getSingleChatMessages st j (Some 20) d"
  "getSingleChatMessages st j k None = getSingleChatMessages st j k (Some latest)"
  by (simp_all add: getSingleChatMessages_def)

lemma getSingleChatMessages_earliest_zero:
  "getSingleChatMessages st j (Some 0) (Some earliest) = getMessages st j"
  by (simp add: getSingleChatMessages_def getMessages_def)

text \<open>
  Claim C5, at the input where the code departs from it. With direction \<open>earliest\<close> and
  count 0 the accessor asks Redis for the range from 0 to -1, which is the whole list (the
  range \<^verbatim>\<open>getMessages\<close> itself asks for): a conversation holding two messages gives both
  back, where the first \<open>min 0 2 = 0\<close> messages are none.
\<close>

theorem C5_earliest_count_zero_returns_all:
  "getSingleChatMessages
     (on_messages_upsert
        [ex_text ''c@s.whatsapp.net'' ''1'' ''one'', ex_text ''c@s.whatsapp.net'' ''2'' ''two'']
        empty_store)
     ''c@s.whatsapp.net'' (Some 0) (Some earliest)
   = [ex_text ''c@s.whatsapp.net'' ''1'' ''one'', ex_text ''c@s.whatsapp.net'' ''2'' ''two'']"
  by (simp add: getSingleChatMessages_def lrange_all on_messages_upsert_def
        append_message_def ex_text_def ex_key_def empty_store_def rpush_def)

subsection \<open>The view of all conversation summaries\<close>

lemma chat_entry_jid: "chat_entry st j = Some s \<Longrightarrow> jid s = j"
  by (auto simp: chat_entry_def Let_def split: option.splits)

lemma map_filter_chat_entry:
  "map jid (List.map_filter (chat_entry st) js) = filter (\<lambda>j. getChat st j \<noteq> None) js"
proof (induction js)
  case Nil
  show ?case by simp
next
  case (Cons j js)
  show ?case
  proof (cases "getChat st j")
    case None
    then have "chat_entry st j = None" by (simp add: chat_entry_def)
    with None Cons show ?thesis by simp
  next
    case (Some ch)
    then obtain s where s: "chat_entry st j = Some s" by (simp add: chat_entry_def Let_def)
    with Some Cons chat_entry_jid[OF s] show ?thesis by simp
  qed
qed

text \<open>
  Claim C10: the summaries view has one entry for each known conversation that has stored
  chat metadata, and none for a known conversation without it: the conversation ids of the
  entries are the known ids filtered by the presence of chat metadata.
\<close>

theorem C10_summaries_only_for_stored_chats:
  "map jid (getAllChats st) = filter (\<lambda>j. getChat st j \<noteq> None) (getKnownJIDs st)"
  by (simp add: getAllChats_def map_filter_chat_entry)

text \<open>
  A conversation known only through an appended message: it is in the known set and the
  view is empty.
\<close>

theorem C10_witness:
  "getKnownJIDs (on_messages_upsert [ex_text ''c@s.whatsapp.net'' ''1'' ''hi''] empty_store)
     = [''c@s.whatsapp.net'']
   \<and> map jid (getAllChats (on_messages_upsert [ex_text ''c@s.whatsapp.net'' ''1'' ''hi''] empty_store))
     = []"
  using C10_summaries_only_for_stored_chats
          [of "on_messages_upsert [ex_text ''c@s.whatsapp.net'' ''1'' ''hi''] empty_store"]
  by (simp add: getKnownJIDs_def getChat_def on_messages_upsert_def append_message_def
        ex_text_def ex_key_def empty_store_def sadd_def)

subsection \<open>The event handlers\<close>

lemma fold_preserves:
  assumes "\<And>x s. g (step x s) = g s"
  shows "g (fold step xs s) = g s"
  using assms by (induction xs arbitrary: s) simp_all

lemma append_message_messages:
  "messages (append_message m st) j = (if appendable j m then messages st j @ [m] else messages st j)"
  by (auto simp: append_message_def appendable_def rpush_def split: option.splits)

lemma append_message_known:
  "set (knownJIDs (append_message m st)) = set (knownJIDs st) \<union> {j. appendable j m}"
  by (auto simp: append_message_def appendable_def sadd_set split: option.splits)

lemma append_message_frame:
  "chatmeta (append_message m st) = chatmeta st"
  "contact (append_message m st) = contact st"
  "groupmeta (append_message m st) = groupmeta st"
  "socketRef (append_message m st) = socketRef st"
  by (simp_all add: append_message_def split: option.splits)

lemma history_message_eq: "history_message ct m st = append_message m st"
  by (simp add: history_message_def append_message_def split: option.splits)

lemma fold_append_message_messages:
  "messages (fold append_message ms st) j = messages st j @ filter (appendable j) ms"
  by (induction ms arbitrary: st) (simp_all add: append_message_messages)

lemma fold_append_message_known:
  "set (knownJIDs (fold append_message ms st)) = set (knownJIDs st) \<union> {j. \<exists>m\<in>set ms. appendable j m}"
  by (induction ms arbitrary: st) (auto simp: append_message_known)

lemma content_jids_set: "set (content_jids ms) = {j. \<exists>m\<in>set ms. appendable j m}"
  by (auto simp: content_jids_def appendable_def split: option.splits if_splits)

lemma fetch_frame:
  "chatmeta (snd (fetch_groupMetadata st j)) = chatmeta st"
  "contact (snd (fetch_groupMetadata st j)) = contact st"
  "groupmeta (snd (fetch_groupMetadata st j)) = groupmeta st"
  "messages (snd (fetch_groupMetadata st j)) = messages st"
  "knownJIDs (snd (fetch_groupMetadata st j)) = knownJIDs st"
  by (simp_all add: fetch_groupMetadata_def split: option.splits)

lemma history_chat_frame:
  "contact (history_chat c st) = contact st"
  "messages (history_chat c st) = messages st"
  "knownJIDs (history_chat c st) = sadd (knownJIDs st) (eid c)"
  "chatmeta (history_chat c st) = (chatmeta st)(eid c \<mapsto> to_obj c)"
  using fetch_frame[of "upsert_chat c st" "eid c"]
  by (auto simp: history_chat_def Let_def upsert_chat_def split: prod.splits option.splits)

lemma fold_history_chat_known:
  "set (knownJIDs (fold history_chat cs st)) = set (knownJIDs st) \<union> eid ` set cs"
  by (induction cs arbitrary: st) (auto simp: history_chat_frame sadd_set)

lemma fold_upsert_chat_known:
  "set (knownJIDs (fold upsert_chat cs st)) = set (knownJIDs st) \<union> eid ` set cs"
  by (induction cs arbitrary: st) (auto simp: upsert_chat_def sadd_set)

lemma on_group_participants_update_eq:
  "on_group_participants_update now u st =
     (let existingMeta = (case groupmeta st (pu_id u) of None \<Rightarrow> fmempty | Some e \<Rightarrow> e)
      in case fetch_groupMetadata st (pu_id u) of
           (fetched, st1) \<Rightarrow>
             (let latestMeta = (case fetched of None \<Rightarrow> fmempty | Some m \<Rightarrow> m)
              in case adminList latestMeta of
                   None \<Rightarrow> st1
                 | Some admins \<Rightarrow>
                     st1\<lparr> groupmeta := (groupmeta st1)(pu_id u \<mapsto>
                            fmupd ''lastParticipantUpdate''
                              (JObj (participant_annotation now u (participantCount latestMeta) admins))
                              (existingMeta ++\<^sub>f latestMeta)) \<rparr>))"
  by (simp add: on_group_participants_update_def handle_group_participants_update_def
        group_participants_update_body_def settle_def try_catch_empty_def final_store_def
        no_faults_def Let_def split: prod.splits option.splits)

lemma participants_update_frame:
  "chatmeta (on_group_participants_update now u st) = chatmeta st"
  "contact (on_group_participants_update now u st) = contact st"
  "messages (on_group_participants_update now u st) = messages st"
  "knownJIDs (on_group_participants_update now u st) = knownJIDs st"
  using fetch_frame[of st "pu_id u"]
  by (auto simp: on_group_participants_update_eq Let_def split: prod.splits option.splits)

lemma on_messaging_history_set_messages:
  "messages (on_messaging_history_set ct chats contacts msgs st) j
     = messages st j @ filter (appendable j) msgs"
proof -
  have "messages (on_messaging_history_set ct chats contacts msgs st)
          = messages (fold (history_message ct) msgs st)"
    unfolding on_messaging_history_set_def
    by (simp add: fold_preserves[where g = messages] history_contact_def history_chat_frame)
  moreover have "history_message ct = append_message"
    by (intro ext) (rule history_message_eq)
  ultimately show ?thesis by (simp add: fold_append_message_messages)
qed

lemma on_messaging_history_set_known:
  "set (knownJIDs (on_messaging_history_set ct chats contacts msgs st))
     = set (knownJIDs st) \<union> eid ` set chats \<union> set (content_jids msgs)"
proof -
  have "knownJIDs (on_messaging_history_set ct chats contacts msgs st)
          = knownJIDs (fold history_chat chats (fold (history_message ct) msgs st))"
    unfolding on_messaging_history_set_def
    by (simp add: fold_preserves[where g = knownJIDs] history_contact_def)
  moreover have "history_message ct = append_message"
    by (intro ext) (rule history_message_eq)
  ultimately show ?thesis
    by (auto simp: fold_history_chat_known fold_append_message_known content_jids_set)
qed

lemma dispatch_messages:
  "messages (dispatch ct now ev st) j = messages st j @ filter (appendable j) (event_messages ev)"
proof (cases ev)
  case (MessagingHistorySet chats contacts msgs)
  then show ?thesis by (simp add: on_messaging_history_set_messages)
next
  case (MessagesUpsert msgs)
  then show ?thesis by (simp add: on_messages_upsert_def fold_append_message_messages)
next
  case (ChatsUpsert chats)
  then show ?thesis
    by (simp add: on_chats_upsert_def fold_preserves[where g = messages] upsert_chat_def)
next
  case (ContactsUpsert contacts)
  then show ?thesis
    by (simp add: on_contacts_upsert_def fold_preserves[where g = messages] upsert_contact_def Let_def)
next
  case (GroupsUpsert groups)
  then show ?thesis
    by (simp add: on_groups_upsert_def fold_preserves[where g = messages] upsert_group_def)
next
  case (GroupsUpdate groups)
  then show ?thesis
    by (simp add: on_groups_update_def fold_preserves[where g = messages] update_group_def Let_def)
next
  case (GroupParticipantsUpdate u)
  then show ?thesis by (simp add: participants_update_frame)
qed

lemma dispatch_known:
  "set (knownJIDs (dispatch ct now ev st)) = set (knownJIDs st) \<union> set (registered_ids ev)"
proof (cases ev)
  case (MessagingHistorySet chats contacts msgs)
  then show ?thesis by (simp add: on_messaging_history_set_known Un_assoc)
next
  case (MessagesUpsert msgs)
  then show ?thesis by (simp add: on_messages_upsert_def fold_append_message_known content_jids_set)
next
  case (ChatsUpsert chats)
  then show ?thesis
    by (simp add: on_chats_upsert_def fold_upsert_chat_known)
next
  case (ContactsUpsert contacts)
  then show ?thesis
    by (simp add: on_contacts_upsert_def fold_preserves[where g = knownJIDs] upsert_contact_def Let_def)
next
  case (GroupsUpsert groups)
  then show ?thesis
    by (simp add: on_groups_upsert_def fold_preserves[where g = knownJIDs] upsert_group_def)
next
  case (GroupsUpdate groups)
  then show ?thesis
    by (simp add: on_groups_update_def fold_preserves[where g = knownJIDs] update_group_def Let_def)
next
  case (GroupParticipantsUpdate u)
  then show ?thesis by (simp add: participants_update_frame)
qed

lemma run_known_mono: "set (knownJIDs st) \<subseteq> set (knownJIDs (run ct evs st))"
proof (induction evs arbitrary: st)
  case Nil
  show ?case by (simp add: run_def)
next
  case (Cons e evs)
  obtain now ev where e: "e = (now, ev)" by (cases e)
  have "set (knownJIDs st) \<subseteq> set (knownJIDs (dispatch ct now ev st))"
    by (simp add: dispatch_known)
  also have "\<dots> \<subseteq> set (knownJIDs (run ct evs (dispatch ct now ev st)))"
    by (rule Cons.IH)
  finally show ?case by (simp add: run_def e)
qed

lemma run_messages_prefix: "prefix (messages st j) (messages (run ct evs st) j)"
proof (induction evs arbitrary: st)
  case Nil
  show ?case by (simp add: run_def)
next
  case (Cons e evs)
  obtain now ev where e: "e = (now, ev)" by (cases e)
  have "prefix (messages st j) (messages (dispatch ct now ev st) j)"
    by (simp add: dispatch_messages)
  also have "prefix \<dots> (messages (run ct evs (dispatch ct now ev st)) j)"
    by (rule Cons.IH)
  finally show ?case by (simp add: run_def e)
qed

lemma getGroupMetadata_frame:
  "chatmeta (snd (getGroupMetadata st j)) = chatmeta st"
  "contact (snd (getGroupMetadata st j)) = contact st"
  "messages (snd (getGroupMetadata st j)) = messages st"
  "knownJIDs (snd (getGroupMetadata st j)) = knownJIDs st"
  using fetch_frame[of st j]
  by (auto simp: getGroupMetadata_def Let_def split: prod.splits option.splits)

subsection \<open>Known conversations\<close>

text \<open>
  Claim C1 as stated fails: the handler of \<^verbatim>\<open>contacts.upsert\<close> writes the contact and
  never calls \<^verbatim>\<open>sadd\<close>, so the id of the contact it carries is not in the known set
  afterwards.
\<close>

theorem C1_counterexample:
  "''alice@s.whatsapp.net'' \<in> set (carried_ids (ContactsUpsert
       [\<lparr> eid = ''alice@s.whatsapp.net'', props = fmap_of_list [(''name'', JStr ''Alice'')] \<rparr>]))
   \<and> ''alice@s.whatsapp.net'' \<notin> set (getKnownJIDs (dispatch 2 0 (ContactsUpsert
       [\<lparr> eid = ''alice@s.whatsapp.net'', props = fmap_of_list [(''name'', JStr ''Alice'')] \<rparr>])
       (bind ex_sock empty_store)))"
  by (simp add: getKnownJIDs_def on_contacts_upsert_def upsert_contact_def bind_def empty_store_def)

text \<open>
  Claim C1, amended: after the handler of an event has run, the known set is the known set
  before together with the ids the handler registers, which are the chat ids of a history
  snapshot or of \<^verbatim>\<open>chats.upsert\<close> and the non-empty \<^verbatim>\<open>remoteJid\<close>s of the messages
  with a content payload of a history snapshot or of \<^verbatim>\<open>messages.upsert\<close>; the handlers
  for contacts, groups and participants add nothing. No sequence of events and no call of
  \<^verbatim>\<open>getGroupMetadata\<close> (the one query that writes) removes a member.
\<close>

theorem C1_known_conversations:
  "set (getKnownJIDs (dispatch ct now ev st)) = set (getKnownJIDs st) \<union> set (registered_ids ev)
   \<and> set (getKnownJIDs st) \<subseteq> set (getKnownJIDs (run ct evs st))
   \<and> getKnownJIDs (snd (getGroupMetadata st j)) = getKnownJIDs st"
  by (simp add: getKnownJIDs_def dispatch_known run_known_mono getGroupMetadata_frame)

text \<open>
  Three events: the chat of another conversation is registered, the message is registered,
  and the query leaves the set as it is.
\<close>

theorem C1_witness:
  "set (getKnownJIDs (dispatch 2 0 (MessagesUpsert [ex_text ''c@s.whatsapp.net'' ''1'' ''hi''])
          (bind ex_sock empty_store))) = {''c@s.whatsapp.net''}
   \<and> set (getKnownJIDs (bind ex_sock empty_store)) \<subseteq>
       set (getKnownJIDs (run 2 [(0, ChatsUpsert [\<lparr> eid = ''d@s.whatsapp.net'', props = fmempty \<rparr>])]
          (bind ex_sock empty_store)))
   \<and> getKnownJIDs (snd (getGroupMetadata (bind ex_sock empty_store) ''g@g.us'')) = []"
  using C1_known_conversations
          [of 2 0 "MessagesUpsert [ex_text ''c@s.whatsapp.net'' ''1'' ''hi'']"
              "bind ex_sock empty_store"
              "[(0, ChatsUpsert [\<lparr> eid = ''d@s.whatsapp.net'', props = fmempty \<rparr>])]"
              "''g@g.us''"]
  by (simp add: getKnownJIDs_def bind_def empty_store_def content_jids_def ex_text_def ex_key_def)

subsection \<open>The message lists\<close>

lemma fold_on_messages_upsert:
  "fold on_messages_upsert batches st = on_messages_upsert (concat batches) st"
  by (induction batches arbitrary: st) (simp_all add: on_messages_upsert_def)

text \<open>
  Claim C2: when the messages that the \<^verbatim>\<open>messages.upsert\<close> events of a sequence deliver
  for conversation \<open>j\<close> are \<open>m1\<close>, \<open>m2\<close>, \<open>m3\<close> in that order (each with a content
  payload, so each is appended), whatever other messages for other conversations are
  interleaved in the same or in other batches, \<^verbatim>\<open>getMessages\<close> returns the list it
  returned before followed by exactly \<open>m1\<close>, \<open>m2\<close>, \<open>m3\<close>. No sequence of events of
  any kind and no call of \<^verbatim>\<open>getGroupMetadata\<close> changes what is already in the list: the
  old list stays a prefix of the new one.
\<close>

theorem C2_append_only_ordering:
  assumes "j \<noteq> []"
    and "message m1 \<noteq> None" and "message m2 \<noteq> None" and "message m3 \<noteq> None"
    and "filter (\<lambda>m. remoteJid (key m) = Some j) (concat batches) = [m1, m2, m3]"
  shows "getMessages (fold on_messages_upsert batches st) j = getMessages st j @ [m1, m2, m3]
         \<and> prefix (getMessages st j) (getMessages (run ct evs st) j)
         \<and> getMessages (snd (getGroupMetadata st g)) j = getMessages st j"
proof -
  have "filter (appendable j) (concat batches)
          = filter (\<lambda>m. message m \<noteq> None) (filter (\<lambda>m. remoteJid (key m) = Some j) (concat batches))"
    using assms(1) by (auto simp: appendable_def intro: filter_cong)
  also have "\<dots> = [m1, m2, m3]"
    using assms by simp
  finally have "filter (appendable j) (concat batches) = [m1, m2, m3]" .
  then have "getMessages (fold on_messages_upsert batches st) j = getMessages st j @ [m1, m2, m3]"
    by (simp add: getMessages_eq fold_on_messages_upsert on_messages_upsert_def
          fold_append_message_messages)
  then show ?thesis
    by (simp add: getMessages_eq run_messages_prefix getGroupMetadata_frame)
qed

text \<open>
  Three batches that interleave the messages of \<open>c\<close> with messages of \<open>d\<close>, on the
  empty store.
\<close>

theorem C2_witness:
  "getMessages
     (fold on_messages_upsert
        [[ex_text ''c@s.whatsapp.net'' ''1'' ''one'', ex_text ''d@s.whatsapp.net'' ''7'' ''x''],
         [ex_text ''c@s.whatsapp.net'' ''2'' ''two''],
         [ex_text ''d@s.whatsapp.net'' ''8'' ''y'', ex_text ''c@s.whatsapp.net'' ''3'' ''three'']]
        empty_store)
     ''c@s.whatsapp.net''
   = [ex_text ''c@s.whatsapp.net'' ''1'' ''one'', ex_text ''c@s.whatsapp.net'' ''2'' ''two'',
      ex_text ''c@s.whatsapp.net'' ''3'' ''three'']"
  using C2_append_only_ordering
          [of "''c@s.whatsapp.net''"
              "ex_text ''c@s.whatsapp.net'' ''1'' ''one''"
              "ex_text ''c@s.whatsapp.net'' ''2'' ''two''"
              "ex_text ''c@s.whatsapp.net'' ''3'' ''three''"
              "[[ex_text ''c@s.whatsapp.net'' ''1'' ''one'', ex_text ''d@s.whatsapp.net'' ''7'' ''x''],
                [ex_text ''c@s.whatsapp.net'' ''2'' ''two''],
                [ex_text ''d@s.whatsapp.net'' ''8'' ''y'', ex_text ''c@s.whatsapp.net'' ''3'' ''three'']]"
              empty_store 2 "[]" "''g@g.us''"]
  by (simp add: ex_text_def ex_key_def getMessages_eq empty_store_def)

subsection \<open>Replaying a chat upsert\<close>

lemma fold_sadd_member:
  "eid ` set cs \<subseteq> set k \<Longrightarrow> fold (\<lambda>c k. sadd k (eid c)) cs k = k"
  by (induction cs arbitrary: k) (simp_all add: sadd_member)

lemma map_add_twice: "(m ++ n) ++ n = m ++ n"
  by (rule ext) (simp add: map_add_def split: option.splits)

lemma fold_upsert_chat_chatmeta_at:
  "chatmeta (fold upsert_chat cs st) j
     = (chatmeta st ++ map_of (rev (map (\<lambda>c. (eid c, to_obj c)) cs))) j"
  by (induction cs arbitrary: st)
     (simp_all add: upsert_chat_def map_add_def split: option.splits)

lemma fold_upsert_chat_chatmeta:
  "chatmeta (fold upsert_chat cs st) = chatmeta st ++ map_of (rev (map (\<lambda>c. (eid c, to_obj c)) cs))"
  by (rule ext) (rule fold_upsert_chat_chatmeta_at)

lemma fold_upsert_chat_knownJIDs:
  "knownJIDs (fold upsert_chat cs st) = fold (\<lambda>c k. sadd k (eid c)) cs (knownJIDs st)"
proof (induction cs arbitrary: st)
  case Nil
  show ?case by simp
next
  case (Cons c cs)
  have "knownJIDs (upsert_chat c st) = sadd (knownJIDs st) (eid c)"
    by (simp add: upsert_chat_def)
  with Cons[of "upsert_chat c st"] show ?case by simp
qed

lemma fold_upsert_chat_frame:
  "contact (fold upsert_chat cs st) = contact st"
  "groupmeta (fold upsert_chat cs st) = groupmeta st"
  "messages (fold upsert_chat cs st) = messages st"
  "socketRef (fold upsert_chat cs st) = socketRef st"
  by (simp_all add: fold_preserves upsert_chat_def)

lemma on_chats_upsert_idem: "on_chats_upsert cs (on_chats_upsert cs st) = on_chats_upsert cs st"
proof (rule store.equality)
  show "chatmeta (on_chats_upsert cs (on_chats_upsert cs st)) = chatmeta (on_chats_upsert cs st)"
    by (simp add: on_chats_upsert_def fold_upsert_chat_chatmeta map_add_twice)
next
  have "eid ` set cs \<subseteq> set (knownJIDs (fold upsert_chat cs st))"
    by (simp add: fold_upsert_chat_known)
  then show "knownJIDs (on_chats_upsert cs (on_chats_upsert cs st)) = knownJIDs (on_chats_upsert cs st)"
    unfolding on_chats_upsert_def
    by (subst fold_upsert_chat_knownJIDs) (rule fold_sadd_member)
qed (simp_all add: on_chats_upsert_def fold_upsert_chat_frame fold_preserves upsert_chat_def)

text \<open>
  Claim C7: handling the same \<^verbatim>\<open>chats.upsert\<close> event a second time leaves the whole
  store, and so the stored metadata of every chat the event names, as the first handling
  left it.
\<close>

theorem C7_chats_upsert_idempotent:
  "dispatch ct now' (ChatsUpsert chats) (dispatch ct now (ChatsUpsert chats) st)
     = dispatch ct now (ChatsUpsert chats) st"
  by (simp add: on_chats_upsert_idem)

subsection \<open>The messages of a history snapshot\<close>

text \<open>
  Claim C3 as stated fails in its second half: a message of a history snapshot that has no
  content payload and a stub type other than the undecryptable placeholder (here 20, with 2
  for the placeholder) is not skipped by the stub rule and has a \<^verbatim>\<open>remoteJid\<close>, and yet
  it is not appended and its conversation is not registered, because the append is guarded
  by \<^verbatim>\<open>jid && msg.message\<close>.
\<close>

theorem C3_counterexample:
  "\<not> (message (ex_stub ''g@g.us'' ''9'' 20) = None \<and> messageStubType (ex_stub ''g@g.us'' ''9'' 20) = Some 2)
   \<and> remoteJid (key (ex_stub ''g@g.us'' ''9'' 20)) = Some ''g@g.us''
   \<and> getMessages (on_messaging_history_set 2 [] [] [ex_stub ''g@g.us'' ''9'' 20]
         (bind ex_sock empty_store)) ''g@g.us'' = []
   \<and> ''g@g.us'' \<notin> set (getKnownJIDs (on_messaging_history_set 2 [] [] [ex_stub ''g@g.us'' ''9'' 20]
         (bind ex_sock empty_store)))"
  by (simp add: ex_stub_def ex_key_def getMessages_eq getKnownJIDs_def on_messaging_history_set_def
        history_message_def append_message_def bind_def empty_store_def)

text \<open>
  Claim C3, amended: for the messages delivered in a \<^verbatim>\<open>messaging-history.set\<close> event, the
  list of a conversation \<open>j\<close> afterwards is the list before followed by those messages of
  the event, in order, that have \<open>j\<close> as their non-empty \<^verbatim>\<open>remoteJid\<close> and carry a content
  payload; the known set afterwards is the known set before, the chat ids of the event and
  the conversations of those same messages. A message without content payload, whatever its
  stub type (the undecryptable placeholder included), is appended to no list and leaves the
  store as it is.
\<close>

theorem C3_history_messages:
  "getMessages (on_messaging_history_set ct chats contacts msgs st) j
     = getMessages st j @ filter (appendable j) msgs
   \<and> set (getKnownJIDs (on_messaging_history_set ct chats contacts msgs st))
     = set (getKnownJIDs st) \<union> eid ` set chats \<union> set (content_jids msgs)
   \<and> (message m = None \<longrightarrow> \<not> appendable j m \<and> history_message ct m st = st)"
  by (simp add: getMessages_eq getKnownJIDs_def on_messaging_history_set_messages
        on_messaging_history_set_known appendable_def history_message_eq append_message_def
        split: option.splits)

text \<open>
  A snapshot with an undecryptable placeholder, another stub and a text message: only the
  text message is appended and registered.
\<close>

theorem C3_witness:
  "getMessages (on_messaging_history_set 2 [] []
       [ex_stub ''c@s.whatsapp.net'' ''1'' 2, ex_stub ''c@s.whatsapp.net'' ''2'' 20,
        ex_text ''c@s.whatsapp.net'' ''3'' ''hi'']
       (bind ex_sock empty_store)) ''c@s.whatsapp.net''
     = [ex_text ''c@s.whatsapp.net'' ''3'' ''hi'']
   \<and> set (getKnownJIDs (on_messaging_history_set 2 [] []
       [ex_stub ''d@s.whatsapp.net'' ''1'' 2, ex_text ''c@s.whatsapp.net'' ''3'' ''hi'']
       (bind ex_sock empty_store))) = {''c@s.whatsapp.net''}
   \<and> history_message 2 (ex_stub ''c@s.whatsapp.net'' ''1'' 2) (bind ex_sock empty_store)
     = bind ex_sock empty_store"
  using C3_history_messages
          [of 2 "[]" "[]" "[ex_stub ''c@s.whatsapp.net'' ''1'' 2, ex_stub ''c@s.whatsapp.net'' ''2'' 20,
                          ex_text ''c@s.whatsapp.net'' ''3'' ''hi'']"
              "bind ex_sock empty_store" "''c@s.whatsapp.net''"
              "ex_stub ''c@s.whatsapp.net'' ''1'' 2"]
        C3_history_messages
          [of 2 "[]" "[]" "[ex_stub ''d@s.whatsapp.net'' ''1'' 2, ex_text ''c@s.whatsapp.net'' ''3'' ''hi'']"
              "bind ex_sock empty_store" "''c@s.whatsapp.net''"
              "ex_stub ''c@s.whatsapp.net'' ''1'' 2"]
  by (simp add: ex_stub_def ex_text_def ex_key_def getMessages_eq getKnownJIDs_def bind_def
        empty_store_def appendable_def content_jids_def)

subsection \<open>Merging a contact\<close>

lemma merge_contact_name:
  "k \<in> {''name'', ''verifiedName'', ''notify''} \<Longrightarrow>
     fmlookup (merge_contact e c) k = js_or (fmlookup c k) (fmlookup e k)"
  by (auto simp: merge_contact_def set_prop_def split: option.splits)

lemma merge_contact_other:
  "k \<notin> {''name'', ''verifiedName'', ''notify''} \<Longrightarrow>
     fmlookup (merge_contact e c) k = (if k |\<in>| fmdom c then fmlookup c k else fmlookup e k)"
  by (auto simp: merge_contact_def set_prop_def split: option.splits)

lemma on_contacts_upsert_snoc:
  "on_contacts_upsert (cs @ [c]) st = upsert_contact c (on_contacts_upsert cs st)"
  by (simp add: on_contacts_upsert_def)

text \<open>
  Claim C4: the record stored for a contact that \<^verbatim>\<open>contacts.upsert\<close> handles is the merge
  of the record stored before (the empty object when there is none) with the incoming one,
  and in the merge of any existing record with the incoming one each of \<^verbatim>\<open>name\<close>,
  \<^verbatim>\<open>verifiedName\<close> and \<^verbatim>\<open>notify\<close> has the incoming value when that is non-empty (truthy)
  and the existing value otherwise, and every other property has the incoming value when
  the incoming record names it and the existing value otherwise.
\<close>

theorem C4_contact_merge:
  "getContact (on_contacts_upsert (cs @ [c]) st) (eid c)
     = Some (merge_contact
               (case getContact (on_contacts_upsert cs st) (eid c) of None \<Rightarrow> fmempty | Some e \<Rightarrow> e)
               (to_obj c))
   \<and> fmlookup (merge_contact existing (to_obj c)) k
     = (if k \<in> {''name'', ''verifiedName'', ''notify''}
        then (if truthy (fmlookup (to_obj c) k) then fmlookup (to_obj c) k else fmlookup existing k)
        else (if k |\<in>| fmdom (to_obj c) then fmlookup (to_obj c) k else fmlookup existing k))"
proof -
  have "getContact (upsert_contact c s) (eid c)
          = Some (merge_contact (case getContact s (eid c) of None \<Rightarrow> fmempty | Some e \<Rightarrow> e) (to_obj c))"
    for s
    by (simp add: getContact_def upsert_contact_def Let_def)
  moreover have "fmlookup (merge_contact existing (to_obj c)) k
      = (if k \<in> {''name'', ''verifiedName'', ''notify''}
         then (if truthy (fmlookup (to_obj c) k) then fmlookup (to_obj c) k else fmlookup existing k)
         else (if k |\<in>| fmdom (to_obj c) then fmlookup (to_obj c) k else fmlookup existing k))"
  proof (cases "k \<in> {''name'', ''verifiedName'', ''notify''}")
    case True
    from merge_contact_name[OF True, of existing "to_obj c"] True show ?thesis
      by (simp only: js_or_def if_True)
  next
    case False
    from merge_contact_other[OF False, of existing "to_obj c"] False show ?thesis
      by (simp only: if_False)
  qed
  ultimately show ?thesis by (simp only: on_contacts_upsert_snoc simp_thms)
qed

text \<open>
  The example of the claim: Alice with notify name A, then an update with an empty name and
  a verified name.
\<close>

theorem C4_witness:
  "getContact
     (on_contacts_upsert
        ([\<lparr> eid = ''a@s.whatsapp.net'',
             props = fmap_of_list [(''name'', JStr ''Alice''), (''notify'', JStr ''A'')] \<rparr>]
         @ [\<lparr> eid = ''a@s.whatsapp.net'',
               props = fmap_of_list [(''name'', JStr []), (''verifiedName'', JStr ''Alice V'')] \<rparr>])
        empty_store)
     ''a@s.whatsapp.net''
   = Some (fmap_of_list
       [(''id'', JStr ''a@s.whatsapp.net''), (''name'', JStr ''Alice''), (''notify'', JStr ''A''),
        (''verifiedName'', JStr ''Alice V'')])"
  using C4_contact_merge
          [of "[\<lparr> eid = ''a@s.whatsapp.net'',
                   props = fmap_of_list [(''name'', JStr ''Alice''), (''notify'', JStr ''A'')] \<rparr>]"
              "\<lparr> eid = ''a@s.whatsapp.net'',
                 props = fmap_of_list [(''name'', JStr []), (''verifiedName'', JStr ''Alice V'')] \<rparr>"
              empty_store fmempty "''name''"]
  apply (simp add: on_contacts_upsert_def upsert_contact_def getContact_def empty_store_def Let_def to_obj_def)
  apply (rule fmap_ext)
  apply (auto simp: merge_contact_def set_prop_def js_or_def)
  done

subsection \<open>Group metadata and its remote fetch\<close>

lemma fetch_log_fetch:
  "fetch_log (snd (fetch_groupMetadata st g)) = (if can_fetch st then fetch_log st @ [g] else fetch_log st)"
  by (simp add: fetch_groupMetadata_def fetch_log_def can_fetch_def split: option.splits)

lemma fetch_log_groupmeta_update: "fetch_log (st\<lparr> groupmeta := x \<rparr>) = fetch_log st"
  by (simp add: fetch_log_def)

lemma fetch_cannot: "\<not> can_fetch st \<Longrightarrow> fetch_groupMetadata st g = (None, st)"
  by (auto simp: fetch_groupMetadata_def can_fetch_def split: option.splits)

lemma getGroupMetadata_stored:
  "groupmeta st g = Some m \<Longrightarrow> getGroupMetadata st g = (Some m, st)"
  by (simp add: getGroupMetadata_def)

text \<open>
  Claim C6 as stated fails: the fetch is made only when \<^verbatim>\<open>socketRef?.groupMetadata\<close> is
  there. On a store that was never bound, a group with no stored metadata gets not-found
  without any fetch, and the store stays as it was.
\<close>

theorem C6_counterexample:
  "groupmeta empty_store ''g@g.us'' = None
   \<and> getGroupMetadata empty_store ''g@g.us'' = (None, empty_store)
   \<and> fetch_log (snd (getGroupMetadata empty_store ''g@g.us'')) = fetch_log empty_store"
  by (simp add: getGroupMetadata_def can_fetch_def empty_store_def)

text \<open>
  Claim C6, amended: for a group \<open>g\<close> with no metadata stored under its key, when the store
  is bound to a socket that has \<^verbatim>\<open>groupMetadata\<close>, \<^verbatim>\<open>getGroupMetadata\<close> makes exactly one
  remote fetch, for \<open>g\<close>; when the fetch fails it returns not-found and stores nothing; when
  the fetch gives \<open>M\<close> it stores \<open>M\<close> under the key of \<open>g\<close> and returns \<open>M\<close>, and a call that
  follows returns the stored \<open>M\<close> and changes nothing. When the store is not bound to such
  a socket, no fetch is made and the call returns not-found.
\<close>

theorem C6_group_metadata_fallback:
  assumes "groupmeta st g = None"
  shows "(\<not> can_fetch st \<longrightarrow> getGroupMetadata st g = (None, st))
       \<and> (can_fetch st \<longrightarrow>
            fetch_log (snd (getGroupMetadata st g)) = fetch_log st @ [g]
          \<and> (fst (fetch_groupMetadata st g) = None \<longrightarrow>
                fst (getGroupMetadata st g) = None
              \<and> groupmeta (snd (getGroupMetadata st g)) = groupmeta st)
          \<and> (fst (fetch_groupMetadata st g) = Some M \<longrightarrow>
                fst (getGroupMetadata st g) = Some M
              \<and> groupmeta (snd (getGroupMetadata st g)) = (groupmeta st)(g \<mapsto> M)
              \<and> getGroupMetadata (snd (getGroupMetadata st g)) g
                  = (Some M, snd (getGroupMetadata st g))))"
proof (cases "can_fetch st")
  case False
  with assms show ?thesis by (simp add: getGroupMetadata_def)
next
  case True
  obtain r st1 where f: "fetch_groupMetadata st g = (r, st1)"
    by (cases "fetch_groupMetadata st g")
  have log: "fetch_log st1 = fetch_log st @ [g]"
    using fetch_log_fetch[of st g] True f by simp
  have gm: "groupmeta st1 = groupmeta st"
    using fetch_frame(3)[of st g] f by simp
  show ?thesis
  proof (cases r)
    case None
    with assms True f log gm show ?thesis
      by (simp add: getGroupMetadata_def)
  next
    case (Some m)
    with assms True f log gm show ?thesis
      by (auto simp: getGroupMetadata_def Let_def fetch_log_groupmeta_update)
  qed
qed


text \<open>
  The three cases: a socket that answers with the subject \<^verbatim>\<open>Team\<close>, a socket whose fetch
  fails, and a store that was never bound.
\<close>

theorem C6_witness:
  "getGroupMetadata (bind ex_sock empty_store) ''g@g.us''
     = (Some (fmap_of_list [(''id'', JStr ''g@g.us''), (''subject'', JStr ''Team'')]),
        snd (getGroupMetadata (bind ex_sock empty_store) ''g@g.us''))
   \<and> fetch_log (snd (getGroupMetadata (bind ex_sock empty_store) ''g@g.us'')) = [''g@g.us'']
   \<and> groupmeta (snd (getGroupMetadata (bind ex_sock empty_store) ''g@g.us'')) ''g@g.us''
     = Some (fmap_of_list [(''id'', JStr ''g@g.us''), (''subject'', JStr ''Team'')])
   \<and> getGroupMetadata (snd (getGroupMetadata (bind ex_sock empty_store) ''g@g.us'')) ''g@g.us''
     = (Some (fmap_of_list [(''id'', JStr ''g@g.us''), (''subject'', JStr ''Team'')]),
        snd (getGroupMetadata (bind ex_sock empty_store) ''g@g.us''))
   \<and> fst (getGroupMetadata (bind ex_sock_down empty_store) ''g@g.us'') = None
   \<and> fetch_log (snd (getGroupMetadata (bind ex_sock_down empty_store) ''g@g.us'')) = [''g@g.us'']
   \<and> getGroupMetadata empty_store ''g@g.us'' = (None, empty_store)"
proof -
  have up: "groupmeta (bind ex_sock empty_store) ''g@g.us'' = None"
           "can_fetch (bind ex_sock empty_store)"
           "fst (fetch_groupMetadata (bind ex_sock empty_store) ''g@g.us'')
              = Some (fmap_of_list [(''id'', JStr ''g@g.us''), (''subject'', JStr ''Team'')])"
           "fetch_log (bind ex_sock empty_store) = []"
    by (simp_all add: bind_def empty_store_def can_fetch_def ex_sock_def fetch_groupMetadata_def
          fetch_log_def)
  have down: "groupmeta (bind ex_sock_down empty_store) ''g@g.us'' = None"
             "can_fetch (bind ex_sock_down empty_store)"
             "fst (fetch_groupMetadata (bind ex_sock_down empty_store) ''g@g.us'') = None"
             "fetch_log (bind ex_sock_down empty_store) = []"
    by (simp_all add: bind_def empty_store_def can_fetch_def ex_sock_down_def
          fetch_groupMetadata_def fetch_log_def)
  have unbound: "groupmeta empty_store ''g@g.us'' = None" "\<not> can_fetch empty_store"
    by (simp_all add: empty_store_def can_fetch_def)
  from C6_group_metadata_fallback[OF up(1),
         of "fmap_of_list [(''id'', JStr ''g@g.us''), (''subject'', JStr ''Team'')]"] up
       C6_group_metadata_fallback[OF down(1), of fmempty] down
       C6_group_metadata_fallback[OF unbound(1), of fmempty] unbound
  show ?thesis by (simp add: prod_eq_iff)
qed

subsection \<open>The last message of a summary\<close>

text \<open>
  Claim C8 as stated fails: \<^verbatim>\<open>getAllChats\<close> parses the last entry of the list and puts the
  whole message into the summary. For a chat with one text message, the \<^verbatim>\<open>lastMessage\<close> of
  its summary is that message, content payload included.
\<close>

theorem C8_counterexample:
  "map jid (getAllChats ex_chat_store) = [''c@s.whatsapp.net'']
   \<and> map lastMessage (getAllChats ex_chat_store) = [Some (ex_text ''c@s.whatsapp.net'' ''1'' ''hello'')]
   \<and> message (ex_text ''c@s.whatsapp.net'' ''1'' ''hello'')
       = Some (fmap_of_list [(''conversation'', JStr ''hello'')])"
  by (simp add: ex_chat_store_def getAllChats_def getKnownJIDs_def chat_entry_def getChat_def
        getContact_def on_messages_upsert_def on_chats_upsert_def append_message_def
        upsert_chat_def bind_def empty_store_def ex_text_def ex_key_def sadd_def rpush_def
        lindex_def Let_def)

lemma chat_entry_lastMessage:
  "chat_entry st j = Some s \<Longrightarrow> lastMessage s = lindex (messages st j) (- 1)"
  by (auto simp: chat_entry_def Let_def split: option.splits)

lemma getAllChats_entry:
  "s \<in> set (getAllChats st) \<Longrightarrow> \<exists>j \<in> set (getKnownJIDs st). chat_entry st j = Some s"
  by (auto simp: getAllChats_def List.map_filter_def)

text \<open>
  Claim C8, amended: in every entry of the summaries view, \<^verbatim>\<open>lastMessage\<close> is the final
  entry of the message list of that conversation, in full (and \<^verbatim>\<open>undefined\<close> when the list
  is empty); the reduction of that same final entry to its key, timestamp and stub type is
  what \<^verbatim>\<open>mostRecentMessage\<close> returns.
\<close>

theorem C8_last_message:
  assumes "s \<in> set (getAllChats st)"
  shows "lastMessage s = (if getMessages st (jid s) = [] then None
                          else Some (last (getMessages st (jid s))))
       \<and> mostRecentMessage st (jid s)
           = map_option (\<lambda>m. \<lparr> d_key = key m, d_messageTimestamp = messageTimestamp m,
                                d_messageStubType = messageStubType m \<rparr>) (lastMessage s)"
proof -
  from assms obtain j where j: "chat_entry st j = Some s"
    using getAllChats_entry by blast
  then have "jid s = j" by (rule chat_entry_jid)
  with chat_entry_lastMessage[OF j] show ?thesis
    by (simp add: getMessages_eq lindex_last mostRecentMessage_def)
qed

text \<open>The store with one chat and one text message.\<close>

theorem C8_witness:
  "map lastMessage (getAllChats ex_chat_store) = [Some (ex_text ''c@s.whatsapp.net'' ''1'' ''hello'')]
   \<and> mostRecentMessage ex_chat_store ''c@s.whatsapp.net''
       = Some \<lparr> d_key = ex_key ''c@s.whatsapp.net'' ''1'',
                 d_messageTimestamp = Some (JNum 1700000000),
                 d_messageStubType = None \<rparr>"
proof -
  obtain s where s: "getAllChats ex_chat_store = [s]" and j: "jid s = ''c@s.whatsapp.net''"
    by (simp add: ex_chat_store_def getAllChats_def getKnownJIDs_def chat_entry_def getChat_def
        getContact_def on_messages_upsert_def on_chats_upsert_def append_message_def
        upsert_chat_def bind_def empty_store_def ex_text_def ex_key_def sadd_def rpush_def
        Let_def)
  have m: "getMessages ex_chat_store ''c@s.whatsapp.net'' = [ex_text ''c@s.whatsapp.net'' ''1'' ''hello'']"
    by (simp add: ex_chat_store_def getMessages_eq on_messages_upsert_def on_chats_upsert_def
          append_message_def upsert_chat_def bind_def empty_store_def ex_text_def ex_key_def
          rpush_def)
  have "s \<in> set (getAllChats ex_chat_store)" using s by simp
  from C8_last_message[OF this] s j m show ?thesis
    by (simp add: ex_text_def)
qed

subsection \<open>Participant updates\<close>

lemma participantCount_array:
  "fmlookup M ''participants'' = Some (JArr ps) \<Longrightarrow> participantCount M = Some (JNum (int (length ps)))"
  by (simp add: participantCount_def js_or_def)

lemma participantCount_absent:
  "fmlookup M ''participants'' = None \<or> fmlookup M ''participants'' = Some JNull
     \<Longrightarrow> participantCount M = Some (JNum 0)"
  by (auto simp: participantCount_def js_or_def)

lemma adminList_array:
  "fmlookup M ''participants'' = Some (JArr ps) \<Longrightarrow> JNull \<notin> set ps \<Longrightarrow>
     adminList M = Some (JArr (map admin_id (filter (\<lambda>p. truthy (get_prop p ''admin'')) ps)))"
  by (simp add: adminList_def)

lemma adminList_absent:
  "fmlookup M ''participants'' = None \<or> fmlookup M ''participants'' = Some JNull
     \<Longrightarrow> adminList M = Some (JArr [])"
  by (auto simp: adminList_def)

lemma participant_annotation_eq:
  "participant_annotation now u (Some cnt) admins
     = fmap_of_list
         [(''participants'', JArr (map JStr (participants u))),
          (''action'', JStr (action u)),
          (''updatedAt'', JNum now),
          (''participantCount'', cnt),
          (''adminList'', admins)]"
  by (rule fmap_ext) (auto simp: participant_annotation_def set_prop_def)

text \<open>
  Claim C9 as stated fails where it has the count and the admin list come from whichever
  metadata is freshest: both are computed from the fetched metadata alone. When the fetch
  fails, the stored metadata (two participants, one admin) is the freshest there is, and the
  annotation written next to it says 0 participants and no admin.
\<close>

theorem C9_counterexample:
  "groupmeta (on_group_participants_update 1700000000 ex_update ex_group_store) ''g@g.us''
     = Some (fmap_of_list
        [(''id'', JStr ''g@g.us''),
         (''subject'', JStr ''Team''),
         (''participants'',
            JArr [JObj (fmap_of_list [(''id'', JStr ''a@s.whatsapp.net''), (''admin'', JStr ''admin'')]),
                  JObj (fmap_of_list [(''id'', JStr ''b@s.whatsapp.net'')])]),
         (''lastParticipantUpdate'',
            JObj (fmap_of_list
              [(''participants'', JArr [JStr ''c@s.whatsapp.net'']),
               (''action'', JStr ''add''),
               (''updatedAt'', JNum 1700000000),
               (''participantCount'', JNum 0),
               (''adminList'', JArr [])]))])"
  apply (simp add: on_group_participants_update_eq ex_update_def ex_group_store_def
        on_groups_upsert_def upsert_group_def bind_def empty_store_def ex_sock_down_def
        fetch_groupMetadata_def adminList_def participantCount_def participant_annotation_eq
        js_or_def to_obj_def Let_def)
  apply (rule fmap_ext)
  apply auto
  done

lemma on_group_participants_update_groupmeta:
  "groupmeta (on_group_participants_update now u st) =
     (case adminList (case fst (fetch_groupMetadata st (pu_id u)) of None \<Rightarrow> fmempty | Some m \<Rightarrow> m) of
        None \<Rightarrow> groupmeta st
      | Some admins \<Rightarrow>
          (groupmeta st)(pu_id u \<mapsto>
             fmupd ''lastParticipantUpdate''
               (JObj (participant_annotation now u
                  (participantCount (case fst (fetch_groupMetadata st (pu_id u)) of None \<Rightarrow> fmempty | Some m \<Rightarrow> m))
                  admins))
               ((case groupmeta st (pu_id u) of None \<Rightarrow> fmempty | Some e \<Rightarrow> e)
                  ++\<^sub>f (case fst (fetch_groupMetadata st (pu_id u)) of None \<Rightarrow> fmempty | Some m \<Rightarrow> m))))"
  using fetch_frame(3)[of st "pu_id u"]
  by (auto simp: on_group_participants_update_eq Let_def split: prod.splits option.splits)

lemma on_group_participants_update_log:
  "fetch_log (on_group_participants_update now u st)
     = (if can_fetch st then fetch_log st @ [pu_id u] else fetch_log st)"
  using fetch_log_fetch[of st "pu_id u"]
  by (auto simp: on_group_participants_update_eq Let_def fetch_log_groupmeta_update
           split: prod.splits option.splits)


lemma body_early_fault:
  "get_fails flt \<or> groupmeta st (pu_id u) \<noteq> None \<and> parse_fails flt \<Longrightarrow>
     snd (group_participants_update_body flt now u st) = st
   \<and> fst (group_participants_update_body flt now u st) \<noteq> None"
  by (auto simp: group_participants_update_body_def)

lemma body_set_fault:
  "\<not> (get_fails flt \<or> groupmeta st (pu_id u) \<noteq> None \<and> parse_fails flt) \<Longrightarrow> set_fails flt \<Longrightarrow>
     snd (group_participants_update_body flt now u st) = snd (fetch_groupMetadata st (pu_id u))
   \<and> fst (group_participants_update_body flt now u st) \<noteq> None"
  by (auto simp: group_participants_update_body_def Let_def split: prod.splits option.splits)

lemma body_no_fault:
  "\<not> (get_fails flt \<or> groupmeta st (pu_id u) \<noteq> None \<and> parse_fails flt) \<Longrightarrow> \<not> set_fails flt \<Longrightarrow>
     snd (group_participants_update_body flt now u st) = on_group_participants_update now u st"
  by (auto simp: group_participants_update_body_def on_group_participants_update_eq Let_def
           split: prod.splits option.splits)

lemma handle_resolved:
  "handle_group_participants_update flt now u st
     = Resolved (snd (group_participants_update_body flt now u st))"
  by (simp add: handle_group_participants_update_def settle_def try_catch_empty_def)

text \<open>
  Claim C9, amended: whichever Redis commands of the run fail, the promise of the handler of
  \<^verbatim>\<open>group-participants.update\<close> resolves (no error leaves the handler), and the store it
  leaves differs from the one it found in nothing but the call log of the socket and the
  metadata of that group. When \<^verbatim>\<open>redis.get\<close> is rejected or the stored record does not
  parse, nothing is fetched and nothing written; otherwise the handler makes one remote
  fetch for the group when the socket allows one. When \<^verbatim>\<open>redis.set\<close> is rejected, or
  computing the admin list throws, nothing is written. Otherwise: when the fetch fails the
  handler writes the stored metadata (the empty object when there is none) with the
  annotation, where the count is 0 and the admin list empty; when the fetch gives \<open>M\<close> it
  writes the stored metadata overlaid with \<open>M\<close> and the annotation, where the count and the
  admin ids are those of the participants of \<open>M\<close>, and 0 and none when \<open>M\<close> has no
  participants or has \<^verbatim>\<open>null\<close> for them. The stored metadata is never used for the count
  or the admin list.
\<close>

theorem C9_participants_update:
  fixes flt :: faults and now :: int and u :: participants_update and st :: store
  defines "out \<equiv> handle_group_participants_update flt now u st"
    and "st' \<equiv> final_store (handle_group_participants_update flt now u st)"
    and "early \<equiv> get_fails flt \<or> groupmeta st (pu_id u) \<noteq> None \<and> parse_fails flt"
    and "existing \<equiv> (case groupmeta st (pu_id u) of None \<Rightarrow> fmempty | Some e \<Rightarrow> e)"
    and "fetched \<equiv> fst (fetch_groupMetadata st (pu_id u))"
    and "annotation \<equiv> (\<lambda>cnt admins. JObj (fmap_of_list
           [(''participants'', JArr (map JStr (participants u))),
            (''action'', JStr (action u)),
            (''updatedAt'', JNum now),
            (''participantCount'', JNum cnt),
            (''adminList'', JArr admins)]))"
  shows "out = Resolved st'
       \<and> (early \<longrightarrow> st' = st)
       \<and> fetch_log st' = (if early then fetch_log st
                          else if can_fetch st then fetch_log st @ [pu_id u] else fetch_log st)
       \<and> chatmeta st' = chatmeta st \<and> contact st' = contact st
       \<and> messages st' = messages st \<and> knownJIDs st' = knownJIDs st
       \<and> (g \<noteq> pu_id u \<longrightarrow> groupmeta st' g = groupmeta st g)
       \<and> (early \<or> set_fails flt \<longrightarrow> groupmeta st' = groupmeta st)
       \<and> (fetched = Some M \<and> adminList M = None \<longrightarrow> groupmeta st' = groupmeta st)
       \<and> (\<not> early \<and> \<not> set_fails flt \<and> fetched = None \<longrightarrow>
            groupmeta st' (pu_id u)
              = Some (fmupd ''lastParticipantUpdate'' (annotation 0 []) existing))
       \<and> (\<not> early \<and> \<not> set_fails flt \<and> fetched = Some M
            \<and> (fmlookup M ''participants'' = None \<or> fmlookup M ''participants'' = Some JNull) \<longrightarrow>
            groupmeta st' (pu_id u)
              = Some (fmupd ''lastParticipantUpdate'' (annotation 0 []) (existing ++\<^sub>f M)))
       \<and> (\<not> early \<and> \<not> set_fails flt \<and> fetched = Some M
            \<and> fmlookup M ''participants'' = Some (JArr ps) \<and> JNull \<notin> set ps \<longrightarrow>
            groupmeta st' (pu_id u)
              = Some (fmupd ''lastParticipantUpdate''
                        (annotation (int (length ps))
                           (map admin_id (filter (\<lambda>p. truthy (get_prop p ''admin'')) ps)))
                        (existing ++\<^sub>f M)))"
proof -
  have res: "out = Resolved st'"
    by (simp add: out_def st'_def handle_resolved final_store_def)
  have st': "st' = snd (group_participants_update_body flt now u st)"
    by (simp add: st'_def handle_resolved final_store_def)
  consider (early) "early"
    | (set) "\<not> early" "set_fails flt"
    | (ok) "\<not> early" "\<not> set_fails flt"
    by blast
  then show ?thesis
  proof cases
    case early
    then have "st' = st"
      using body_early_fault[of flt st u now] by (simp add: st' early_def)
    with res early show ?thesis by simp
  next
    case set
    then have eq: "st' = snd (fetch_groupMetadata st (pu_id u))"
      using body_set_fault[of flt st u now] by (simp add: st' early_def)
    from set res show ?thesis
      by (simp add: eq fetch_frame fetch_log_fetch)
  next
    case ok
    then have eq: "st' = on_group_participants_update now u st"
      using body_no_fault[of flt st u now] by (simp add: st' early_def)
    have frame: "chatmeta st' = chatmeta st" "contact st' = contact st"
        "messages st' = messages st" "knownJIDs st' = knownJIDs st"
      by (simp_all add: eq participants_update_frame)
    have log: "fetch_log st' = (if can_fetch st then fetch_log st @ [pu_id u] else fetch_log st)"
      by (simp add: eq on_group_participants_update_log)
    have gm: "groupmeta st' =
       (case adminList (case fetched of None \<Rightarrow> fmempty | Some m \<Rightarrow> m) of
          None \<Rightarrow> groupmeta st
        | Some admins \<Rightarrow>
            (groupmeta st)(pu_id u \<mapsto>
               fmupd ''lastParticipantUpdate''
                 (JObj (participant_annotation now u
                    (participantCount (case fetched of None \<Rightarrow> fmempty | Some m \<Rightarrow> m)) admins))
                 (existing ++\<^sub>f (case fetched of None \<Rightarrow> fmempty | Some m \<Rightarrow> m))))"
      unfolding eq fetched_def existing_def by (rule on_group_participants_update_groupmeta)
    have other: "g \<noteq> pu_id u \<longrightarrow> groupmeta st' g = groupmeta st g"
      by (simp add: gm split: option.splits)
    have thrown: "fetched = Some M \<and> adminList M = None \<longrightarrow> groupmeta st' = groupmeta st"
      by (simp add: gm)
    have failed: "fetched = None \<longrightarrow>
        groupmeta st' (pu_id u) = Some (fmupd ''lastParticipantUpdate'' (annotation 0 []) existing)"
      by (simp add: gm adminList_absent participantCount_absent participant_annotation_eq
            annotation_def)
    have absent: "fetched = Some M
          \<and> (fmlookup M ''participants'' = None \<or> fmlookup M ''participants'' = Some JNull) \<longrightarrow>
        groupmeta st' (pu_id u)
          = Some (fmupd ''lastParticipantUpdate'' (annotation 0 []) (existing ++\<^sub>f M))"
      by (auto simp: gm adminList_absent participantCount_absent participant_annotation_eq
            annotation_def)
    have array: "fetched = Some M \<and> fmlookup M ''participants'' = Some (JArr ps) \<and> JNull \<notin> set ps \<longrightarrow>
        groupmeta st' (pu_id u)
          = Some (fmupd ''lastParticipantUpdate''
                    (annotation (int (length ps))
                       (map admin_id (filter (\<lambda>p. truthy (get_prop p ''admin'')) ps)))
                    (existing ++\<^sub>f M))"
      by (simp add: gm adminList_array participantCount_array participant_annotation_eq
            annotation_def)
    from ok res frame log other thrown failed absent array show ?thesis by simp
  qed
qed

text \<open>
  On a store with no metadata for the group: a fetch that returns two participants, one of
  them an admin; a fetch that fails; a fetch that returns \<^verbatim>\<open>null\<close> for the participants; a
  fetch that returns a \<^verbatim>\<open>null\<close> participant, where the body throws and the handler
  resolves all the same; and the first fetch again with \<^verbatim>\<open>redis.set\<close> rejected, and with
  \<^verbatim>\<open>redis.get\<close> rejected.
\<close>

theorem C9_witness:
  "handle_group_participants_update no_faults 1700000000 ex_update (bind ex_sock_members empty_store)
     = Resolved (on_group_participants_update 1700000000 ex_update (bind ex_sock_members empty_store))
   \<and> fetch_log (on_group_participants_update 1700000000 ex_update (bind ex_sock_members empty_store))
     = [''g@g.us'']
   \<and> groupmeta (on_group_participants_update 1700000000 ex_update (bind ex_sock_members empty_store))
       ''g@g.us''
     = Some (fmupd ''lastParticipantUpdate''
          (JObj (fmap_of_list
             [(''participants'', JArr [JStr ''c@s.whatsapp.net'']),
              (''action'', JStr ''add''),
              (''updatedAt'', JNum 1700000000),
              (''participantCount'', JNum 2),
              (''adminList'', JArr [JStr ''a@s.whatsapp.net''])]))
          (fmap_of_list
             [(''id'', JStr ''g@g.us''),
              (''participants'',
                 JArr [JObj (fmap_of_list [(''id'', JStr ''a@s.whatsapp.net''), (''admin'', JStr ''admin'')]),
                       JObj (fmap_of_list [(''id'', JStr ''b@s.whatsapp.net'')])])]))
   \<and> groupmeta (on_group_participants_update 1700000000 ex_update (bind ex_sock_down empty_store))
       ''g@g.us''
     = Some (fmupd ''lastParticipantUpdate''
          (JObj (fmap_of_list
             [(''participants'', JArr [JStr ''c@s.whatsapp.net'']),
              (''action'', JStr ''add''),
              (''updatedAt'', JNum 1700000000),
              (''participantCount'', JNum 0),
              (''adminList'', JArr [])]))
          fmempty)
   \<and> groupmeta (on_group_participants_update 1700000000 ex_update (bind ex_sock_down empty_store))
       ''h@g.us'' = None
   \<and> groupmeta (on_group_participants_update 1700000000 ex_update
         (bind (ex_sock_answer (fmap_of_list [(''participants'', JNull)])) empty_store)) ''g@g.us''
     = Some (fmupd ''lastParticipantUpdate''
          (JObj (fmap_of_list
             [(''participants'', JArr [JStr ''c@s.whatsapp.net'']),
              (''action'', JStr ''add''),
              (''updatedAt'', JNum 1700000000),
              (''participantCount'', JNum 0),
              (''adminList'', JArr [])]))
          (fmap_of_list [(''participants'', JNull)]))
   \<and> fst (group_participants_update_body no_faults 1700000000 ex_update
         (bind (ex_sock_answer (fmap_of_list [(''participants'', JArr [JNull])])) empty_store))
     = Some TypeError
   \<and> handle_group_participants_update no_faults 1700000000 ex_update
         (bind (ex_sock_answer (fmap_of_list [(''participants'', JArr [JNull])])) empty_store)
     = Resolved (on_group_participants_update 1700000000 ex_update
         (bind (ex_sock_answer (fmap_of_list [(''participants'', JArr [JNull])])) empty_store))
   \<and> groupmeta (on_group_participants_update 1700000000 ex_update
         (bind (ex_sock_answer (fmap_of_list [(''participants'', JArr [JNull])])) empty_store))
     = Map.empty
   \<and> groupmeta (final_store (handle_group_participants_update
         \<lparr> get_fails = False, parse_fails = False, set_fails = True \<rparr>
         1700000000 ex_update (bind ex_sock_members empty_store))) = Map.empty
   \<and> handle_group_participants_update
         \<lparr> get_fails = True, parse_fails = False, set_fails = False \<rparr>
         1700000000 ex_update (bind ex_sock_members empty_store)
     = Resolved (bind ex_sock_members empty_store)"
proof -
  let ?members = "fmap_of_list
             [(''id'', JStr ''g@g.us''),
              (''participants'',
                 JArr [JObj (fmap_of_list [(''id'', JStr ''a@s.whatsapp.net''), (''admin'', JStr ''admin'')]),
                       JObj (fmap_of_list [(''id'', JStr ''b@s.whatsapp.net'')])])]"
  let ?ps = "[JObj (fmap_of_list [(''id'', JStr ''a@s.whatsapp.net''), (''admin'', JStr ''admin'')]),
              JObj (fmap_of_list [(''id'', JStr ''b@s.whatsapp.net'')])]"
  let ?null = "fmap_of_list [(''participants'', JNull)]"
  let ?bad = "fmap_of_list [(''participants'', JArr [JNull])]"
  have fin: "final_store (handle_group_participants_update no_faults now u st)
               = on_group_participants_update now u st" for now u st
    by (simp add: on_group_participants_update_def)
  have nf: "\<not> get_fails no_faults" "\<not> parse_fails no_faults" "\<not> set_fails no_faults"
    by (simp_all add: no_faults_def)
  have up: "can_fetch (bind ex_sock_members empty_store)"
    "fetch_log (bind ex_sock_members empty_store) = []"
    "groupmeta (bind ex_sock_members empty_store) = Map.empty"
    "fst (fetch_groupMetadata (bind ex_sock_members empty_store) ''g@g.us'') = Some ?members"
    by (simp_all add: bind_def empty_store_def can_fetch_def fetch_log_def ex_sock_members_def
          fetch_groupMetadata_def)
  have down: "groupmeta (bind ex_sock_down empty_store) = Map.empty"
    "fst (fetch_groupMetadata (bind ex_sock_down empty_store) ''g@g.us'') = None"
    by (simp_all add: bind_def empty_store_def ex_sock_down_def fetch_groupMetadata_def)
  have null: "groupmeta (bind (ex_sock_answer ?null) empty_store) = Map.empty"
    "fst (fetch_groupMetadata (bind (ex_sock_answer ?null) empty_store) ''g@g.us'') = Some ?null"
    by (simp_all add: bind_def empty_store_def ex_sock_answer_def fetch_groupMetadata_def)
  have bad: "groupmeta (bind (ex_sock_answer ?bad) empty_store) = Map.empty"
    "fst (fetch_groupMetadata (bind (ex_sock_answer ?bad) empty_store) ''g@g.us'') = Some ?bad"
    "adminList ?bad = None"
    by (simp_all add: bind_def empty_store_def ex_sock_answer_def fetch_groupMetadata_def
          adminList_def)
  have threw: "fst (group_participants_update_body no_faults 1700000000 ex_update
         (bind (ex_sock_answer ?bad) empty_store)) = Some TypeError"
    by (simp add: group_participants_update_body_def no_faults_def ex_update_def bind_def
          empty_store_def ex_sock_answer_def fetch_groupMetadata_def adminList_def)
  note members = C9_participants_update
         [of no_faults 1700000000 ex_update "bind ex_sock_members empty_store" "''h@g.us''"
             ?members ?ps, unfolded fin]
  note failing = C9_participants_update
         [of no_faults 1700000000 ex_update "bind ex_sock_down empty_store" "''h@g.us''" fmempty "[]",
          unfolded fin]
  note nulled = C9_participants_update
         [of no_faults 1700000000 ex_update "bind (ex_sock_answer ?null) empty_store" "''h@g.us''"
             ?null "[]", unfolded fin]
  note throwing = C9_participants_update
         [of no_faults 1700000000 ex_update "bind (ex_sock_answer ?bad) empty_store" "''h@g.us''"
             ?bad "[]", unfolded fin]
  note set_rejected = C9_participants_update
         [of "\<lparr> get_fails = False, parse_fails = False, set_fails = True \<rparr>"
             1700000000 ex_update "bind ex_sock_members empty_store" "''h@g.us''" ?members ?ps]
  note get_rejected = C9_participants_update
         [of "\<lparr> get_fails = True, parse_fails = False, set_fails = False \<rparr>"
             1700000000 ex_update "bind ex_sock_members empty_store" "''h@g.us''" ?members ?ps]
  have 1: "handle_group_participants_update no_faults 1700000000 ex_update (bind ex_sock_members empty_store)
     = Resolved (on_group_participants_update 1700000000 ex_update (bind ex_sock_members empty_store))"
    using members by (rule conjunct1)
  have 2: "fetch_log (on_group_participants_update 1700000000 ex_update (bind ex_sock_members empty_store))
     = [''g@g.us'']"
    using members up nf by (simp add: ex_update_def)
  have 3: "groupmeta (on_group_participants_update 1700000000 ex_update (bind ex_sock_members empty_store))
       ''g@g.us''
     = Some (fmupd ''lastParticipantUpdate''
          (JObj (fmap_of_list
             [(''participants'', JArr [JStr ''c@s.whatsapp.net'']),
              (''action'', JStr ''add''),
              (''updatedAt'', JNum 1700000000),
              (''participantCount'', JNum 2),
              (''adminList'', JArr [JStr ''a@s.whatsapp.net''])]))
          ?members)"
    using members up nf by (simp add: ex_update_def admin_id_def get_prop_def)
  have 4: "groupmeta (on_group_participants_update 1700000000 ex_update (bind ex_sock_down empty_store))
       ''g@g.us''
     = Some (fmupd ''lastParticipantUpdate''
          (JObj (fmap_of_list
             [(''participants'', JArr [JStr ''c@s.whatsapp.net'']),
              (''action'', JStr ''add''),
              (''updatedAt'', JNum 1700000000),
              (''participantCount'', JNum 0),
              (''adminList'', JArr [])]))
          fmempty)"
    using failing down nf by (simp add: ex_update_def)
  have 5: "groupmeta (on_group_participants_update 1700000000 ex_update (bind ex_sock_down empty_store))
       ''h@g.us'' = None"
    using failing down nf by (simp add: ex_update_def)
  have 6: "groupmeta (on_group_participants_update 1700000000 ex_update
         (bind (ex_sock_answer ?null) empty_store)) ''g@g.us''
     = Some (fmupd ''lastParticipantUpdate''
          (JObj (fmap_of_list
             [(''participants'', JArr [JStr ''c@s.whatsapp.net'']),
              (''action'', JStr ''add''),
              (''updatedAt'', JNum 1700000000),
              (''participantCount'', JNum 0),
              (''adminList'', JArr [])]))
          ?null)"
    using nulled null nf by (simp add: ex_update_def)
  have 7: "handle_group_participants_update no_faults 1700000000 ex_update
         (bind (ex_sock_answer ?bad) empty_store)
     = Resolved (on_group_participants_update 1700000000 ex_update
         (bind (ex_sock_answer ?bad) empty_store))"
    using throwing by (rule conjunct1)
  have 8: "groupmeta (on_group_participants_update 1700000000 ex_update
         (bind (ex_sock_answer ?bad) empty_store)) = Map.empty"
    using throwing bad by (simp add: ex_update_def)
  have 9: "groupmeta (final_store (handle_group_participants_update
         \<lparr> get_fails = False, parse_fails = False, set_fails = True \<rparr>
         1700000000 ex_update (bind ex_sock_members empty_store))) = Map.empty"
    using set_rejected up by simp
  have "final_store (handle_group_participants_update
         \<lparr> get_fails = True, parse_fails = False, set_fails = False \<rparr>
         1700000000 ex_update (bind ex_sock_members empty_store)) = bind ex_sock_members empty_store"
    using get_rejected by simp
  with get_rejected have 10: "handle_group_participants_update
         \<lparr> get_fails = True, parse_fails = False, set_fails = False \<rparr>
         1700000000 ex_update (bind ex_sock_members empty_store)
     = Resolved (bind ex_sock_members empty_store)"
    by (simp only:)
  from 1 2 3 4 5 6 threw 7 8 9 10 show ?thesis by (simp only: simp_thms)
qed

end
